theory Spec2Isabelle
  imports Complex_Main "HOL-Library.Sublist" "HOL-Library.AList"
begin

section \<open>Balanced offload manager (modules/sd\_offload.py)\<close>

text \<open>
  A shallow embedding of the balanced offload code of \<^verbatim>\<open>modules/sd_offload.py\<close>:
  the class \<^verbatim>\<open>OffloadHook\<close> (constructor, \<^verbatim>\<open>validate\<close>, \<^verbatim>\<open>model_size\<close>,
  \<^verbatim>\<open>pre_forward\<close>, \<^verbatim>\<open>post_forward\<close>) and the function \<^verbatim>\<open>apply_balanced_offload\<close>
  with its two local functions.

  Conventions of the embedding:
  \<^item> Python floats (watermarks, sizes in GB, memory readings) are exact rationals;
    rounding of floating point arithmetic is not modelled.
  \<^item> The settings object \<^verbatim>\<open>shared.opts\<close>, the values \<^verbatim>\<open>shared.gpu_memory\<close> and so on, the
    module-level global \<^verbatim>\<open>offload_hook_instance\<close> and the output of the logger are the
    fields of one record \<open>state\<close>, passed in and returned.
  \<^item> Every call of the logger and of an external library is recorded, in order, as an
    \<open>event\<close>.
  \<^item> A Python exception is a value of type \<open>exn\<close>; a function that may raise returns
    a \<open>result\<close>, which carries the state reached when the exception left the function.
\<close>

subsection \<open>Values\<close>

text \<open>\<^verbatim>\<open>torch.device\<close>: a type and an optional index.\<close>

datatype device = Device (dev_type: string) (dev_index: "nat option")

definition devices_cpu :: device where
  "devices_cpu = Device ''cpu'' None"

text \<open>
  Modelled from the spec: \<^verbatim>\<open>devices.same_device\<close> (module \<^verbatim>\<open>modules/devices.py\<close> is not
  part of the sources at hand). The placement policy is a no-op "if the submodule's current
  residency already equals the target execution device"; a missing index is the
  first device of its type.
\<close>

definition same_device :: "device \<Rightarrow> device \<Rightarrow> bool" where
  "same_device d1 d2 \<longleftrightarrow>
     dev_type d1 = dev_type d2 \<and>
     (case dev_index d1 of None \<Rightarrow> 0 | Some i \<Rightarrow> i) = (case dev_index d2 of None \<Rightarrow> 0 | Some i \<Rightarrow> i)"

text \<open>Exceptions. \<open>str_of\<close> is Python's \<^verbatim>\<open>str(e)\<close>.\<close>

datatype exn =
    Exception string
  | AttributeError string
  | KeyError string
  | UnboundLocalError string
  | ZeroDivisionError

fun str_of :: "exn \<Rightarrow> string" where
  "str_of (Exception msg) = msg"
| "str_of (AttributeError msg) = msg"
| "str_of (KeyError k) = [CHR 0x27] @ k @ [CHR 0x27]"
| "str_of (UnboundLocalError msg) = msg"
| "str_of ZeroDivisionError = ''float division by zero''"

datatype 'a result = Return 'a | Raise exn 'a

text \<open>Python's \<^verbatim>\<open>sub in s\<close> on strings, and \<^verbatim>\<open>s.startswith(p)\<close>.\<close>

fun str_contains :: "string \<Rightarrow> string \<Rightarrow> bool" where
  "str_contains sub [] = (sub = [])"
| "str_contains sub (c # cs) = (prefix sub (c # cs) \<or> str_contains sub cs)"

definition startswith :: "string \<Rightarrow> string \<Rightarrow> bool" where
  "startswith s p = prefix p s"

text \<open>Python's \<^verbatim>\<open>int(x)\<close> on a float: truncation towards zero.\<close>

definition py_int :: "rat \<Rightarrow> int" where
  "py_int x = (if 0 \<le> x then \<lfloor>x\<rfloor> else \<lceil>x\<rceil>)"

subsection \<open>Events: logger and library calls\<close>

datatype event =
    Info_init                         \<comment> \<open>\<^verbatim>\<open>log.info('Offload: type=balanced op=init ...')\<close>\<close>
  | Warn_low_invalid                  \<comment> \<open>\<^verbatim>\<open>log.warning('... watermark low=... invalid value')\<close>\<close>
  | Warn_high_invalid                 \<comment> \<open>\<^verbatim>\<open>log.warning('... watermark high=... invalid value')\<close>\<close>
  | Warn_low_reset                    \<comment> \<open>\<^verbatim>\<open>log.warning('... watermark low=... reset')\<close>\<close>
  | Warn_low_memory                   \<comment> \<open>\<^verbatim>\<open>log.warning('... watermark high=... low memory')\<close>\<close>
  | Error_calc string string          \<comment> \<open>\<^verbatim>\<open>log.error('... op=calc module={module_name} {e}')\<close>\<close>
  | Error_apply string string         \<comment> \<open>\<^verbatim>\<open>log.error('... op=apply module={name} {e}')\<close>\<close>
  | Debug_model string                \<comment> \<open>\<^verbatim>\<open>log.debug('Model module={module_name} ...')\<close>\<close>
  | Trace_offload string rat rat      \<comment> \<open>\<^verbatim>\<open>debug_move('... op={op} gpu={prev_gpu}:{used_gpu} ...')\<close>\<close>
  | Trace_apply                       \<comment> \<open>\<^verbatim>\<open>debug_move('Apply offload: ...')\<close>\<close>
  | Info_model string nat rat         \<comment> \<open>\<^verbatim>\<open>log.info('Model class=... modules=... size=...')\<close>\<close>
  | Display string string             \<comment> \<open>\<^verbatim>\<open>errors.display(e, '... module={name}')\<close>\<close>
  | Torch_gc bool "string option"     \<comment> \<open>\<^verbatim>\<open>devices.torch_gc(fast=True, force=..., reason=...)\<close>\<close>
  | Apply_layerwise                   \<comment> \<open>\<^verbatim>\<open>model_quant.apply_layerwise(sd_model, quiet=True)\<close>\<close>
  | Infer_auto_device_map             \<comment> \<open>\<^verbatim>\<open>accelerate.infer_auto_device_map\<close>\<close>
  | Dispatch_model string             \<comment> \<open>\<^verbatim>\<open>accelerate.dispatch_model(..., offload_dir=...)\<close>\<close>
  | To_cpu                            \<comment> \<open>\<^verbatim>\<open>module.to(devices.cpu)\<close>\<close>

fun is_warning :: "event \<Rightarrow> bool" where
  "is_warning Warn_low_invalid = True"
| "is_warning Warn_high_invalid = True"
| "is_warning Warn_low_reset = True"
| "is_warning Warn_low_memory = True"
| "is_warning _ = False"

text \<open>Python's \<^verbatim>\<open>os.path.join(a, b)\<close> on POSIX paths.\<close>

definition path_join :: "string \<Rightarrow> string \<Rightarrow> string" where
  "path_join a b =
     (if prefix ''/'' b then b
      else if a = [] \<or> suffix ''/'' a then a @ b
      else a @ ''/'' @ b)"

text \<open>Decimal digits of a natural number, for the f-string \<^verbatim>\<open>f"{type}:{index}"\<close>.\<close>

fun string_of_nat :: "nat \<Rightarrow> string" where
  "string_of_nat n =
     (if n div 10 = 0 then [char_of (n + 48)]
      else string_of_nat (n div 10) @ [char_of (n mod 10 + 48)])"

declare string_of_nat.simps [simp del]

subsection \<open>Submodules and pipelines\<close>

text \<open>
  A device map assigns parameter paths to a device index (an \<^verbatim>\<open>int\<close>) or to a device
  name (\<^verbatim>\<open>"cpu"\<close>, \<^verbatim>\<open>"disk"\<close>, \<^verbatim>\<open>"privateuseone:0"\<close>). \<open>max_memory\<close> is the dict
  \<^verbatim>\<open>{device_index: self.gpu, "cpu": self.cpu}\<close>.
\<close>

datatype placement = Dev_index nat | Dev_name string

type_synonym device_map = "(string \<times> placement) list"

record max_memory =
  mm_index :: nat
  mm_gpu :: int
  mm_cpu :: int

text \<open>
  The attributes of a \<^verbatim>\<open>torch.nn.Module\<close> that the code reads or writes.
  \<open>hf_hook\<close> lists the hooks attached (by the checkpoint name of the manager),
  \<open>execution_device\<close> is \<^verbatim>\<open>module._hf_hook.execution_device\<close>,
  \<open>dunder_name\<close> is the attribute \<^verbatim>\<open>__name__\<close> (an instance of a class has none unless one
  was set), \<open>cls_name\<close> is \<^verbatim>\<open>module.__class__.__name__\<close>, and \<open>parameters\<close> gives
  \<^verbatim>\<open>(p.numel(), p.element_size())\<close> of every parameter, or the exception that walking them
  raises.
\<close>

record module =
  device :: device
  balanced_offload_device_map :: "device_map option"
  balanced_offload_max_memory :: "max_memory option"
  offload_post :: bool
  hf_hook :: "string list"
  execution_device :: "device option"
  network_layer_name :: "string option"
  offload_dir :: "string option"
  dunder_name :: "string option"
  cls_name :: string
  parameters :: "exn + (nat \<times> nat) list"

text \<open>
  What \<^verbatim>\<open>getattr(pipe, name, None)\<close> gives: \<^verbatim>\<open>None\<close>, an object that is no
  \<^verbatim>\<open>torch.nn.Module\<close> (a tokenizer, a scheduler), or a module.
\<close>

datatype component = NoneC | NonModule | Module module

type_synonym attrs = "(string \<times> component) list"

definition getattr :: "attrs \<Rightarrow> string \<Rightarrow> component" where
  "getattr pipe name = (case map_of pipe name of None \<Rightarrow> NoneC | Some c \<Rightarrow> c)"

text \<open>
  A pipeline object: its class name, \<^verbatim>\<open>sd_checkpoint_info\<close> (absent or \<^verbatim>\<open>None\<close>, else its
  \<^verbatim>\<open>name\<close>, which may be \<^verbatim>\<open>None\<close>), its named components in the order of
  \<^verbatim>\<open>_internal_dict.keys()\<close> (or of the constructor's signature), and the nested pipelines
  \<^verbatim>\<open>pipe\<close>, \<^verbatim>\<open>prior_pipe\<close>, \<^verbatim>\<open>decoder_pipe\<close> where the attribute exists.
\<close>

record pipeline =
  class_name :: string
  sd_checkpoint_info :: "string option option"
  components :: attrs
  pipe :: "attrs option"
  prior_pipe :: "attrs option"
  decoder_pipe :: "attrs option"
  has_accelerate :: bool

text \<open>
  The library calls whose outcome the code cannot know: each is a function of its
  arguments that returns normally (\<open>Inr\<close>) or raises (\<open>Inl\<close>).
  \<open>torch_gc\<close> is the reading \<^verbatim>\<open>(used_gpu, used_ram)\<close> that \<^verbatim>\<open>devices.torch_gc\<close> returns
  after the events so far.
\<close>

record externals =
  infer_auto_device_map :: "module \<Rightarrow> max_memory \<Rightarrow> exn + device_map option"
  dispatch_model :: "module \<Rightarrow> device_map \<Rightarrow> string \<Rightarrow> exn + module"
  module_to_cpu :: "module \<Rightarrow> exn option"
  torch_gc :: "event list \<Rightarrow> rat \<times> rat"

subsection \<open>The manager and the shared state\<close>

text \<open>The attributes of an \<^verbatim>\<open>OffloadHook\<close> instance; the two dicts are association lists.\<close>

record hook =
  checkpoint_name :: string
  min_watermark :: rat
  max_watermark :: rat
  cpu_watermark :: rat
  gpu :: int
  cpu :: int
  offload_map :: "(string \<times> rat) list"
  param_map :: "(string \<times> rat) list"

text \<open>
  \<^verbatim>\<open>shared.opts.*\<close>, \<^verbatim>\<open>shared.*\<close>, the global \<^verbatim>\<open>offload_hook_instance\<close> and the events
  so far. \<open>sd_move_debug\<close> is the environment variable \<^verbatim>\<open>SD_MOVE_DEBUG\<close>.
\<close>

record state =
  diffusers_offload_mode :: string
  diffusers_offload_min_gpu_memory :: rat
  diffusers_offload_max_gpu_memory :: rat
  diffusers_offload_max_cpu_memory :: rat
  accelerate_offload_path :: string
  te_hijack :: bool
  gpu_memory :: rat
  cpu_memory :: rat
  sd_model_type :: string
  sd_move_debug :: "string option"
  devices_device :: device
  devices_backend :: string
  layerwise_quantization :: bool
  sd_loaded :: bool
  sd_model :: "pipeline option"
  offload_hook_instance :: "hook option"
  events :: "event list"

definition emit :: "event \<Rightarrow> state \<Rightarrow> state" where
  "emit e s = s\<lparr>events := events s @ [e]\<rparr>"

text \<open>\<^verbatim>\<open>debug = os.environ.get('SD_MOVE_DEBUG', None) is not None\<close>\<close>

definition debug :: "state \<Rightarrow> bool" where
  "debug s \<longleftrightarrow> sd_move_debug s \<noteq> None"

text \<open>\<^verbatim>\<open>if os.environ.get('SD_MOVE_DEBUG', None):\<close> holds for a non-empty value.\<close>

definition sd_move_debug_set :: "state \<Rightarrow> bool" where
  "sd_move_debug_set s \<longleftrightarrow> (case sd_move_debug s of None \<Rightarrow> False | Some v \<Rightarrow> v \<noteq> [])"

subsection \<open>\<^verbatim>\<open>OffloadHook.validate\<close> and \<^verbatim>\<open>OffloadHook.__init__\<close>\<close>

definition validate :: "state \<Rightarrow> state" where
  "validate s =
    (if diffusers_offload_mode s \<noteq> ''balanced'' then s
     else
       let s1 = (if diffusers_offload_min_gpu_memory s < 0 \<or> diffusers_offload_min_gpu_memory s > 1
                 then emit Warn_low_invalid (s\<lparr>diffusers_offload_min_gpu_memory := 2 / 10\<rparr>)
                 else s);
           s2 = (if diffusers_offload_max_gpu_memory s1 < 1 / 10 \<or> diffusers_offload_max_gpu_memory s1 > 1
                 then emit Warn_high_invalid (s1\<lparr>diffusers_offload_max_gpu_memory := 7 / 10\<rparr>)
                 else s1);
           s3 = (if diffusers_offload_min_gpu_memory s2 > diffusers_offload_max_gpu_memory s2
                 then emit Warn_low_reset
                        (s2\<lparr>diffusers_offload_min_gpu_memory := diffusers_offload_max_gpu_memory s2\<rparr>)
                 else s2)
       in if diffusers_offload_max_gpu_memory s3 * gpu_memory s3 < 4
          then emit Warn_low_memory s3 else s3)"

text \<open>
  The constructor returns the new instance and the state it leaves behind. The attributes
  are read from the options before \<^verbatim>\<open>self.validate()\<close> runs.
\<close>

definition OffloadHook_init :: "string \<Rightarrow> state \<Rightarrow> hook \<times> state" where
  "OffloadHook_init name s =
    (let s1 = (if diffusers_offload_max_gpu_memory s > 1
               then s\<lparr>diffusers_offload_max_gpu_memory := 75 / 100\<rparr> else s);
         s2 = (if diffusers_offload_max_cpu_memory s1 > 1
               then s1\<lparr>diffusers_offload_max_cpu_memory := 75 / 100\<rparr> else s1);
         h = \<lparr>checkpoint_name = name,
              min_watermark = diffusers_offload_min_gpu_memory s2,
              max_watermark = diffusers_offload_max_gpu_memory s2,
              cpu_watermark = diffusers_offload_max_cpu_memory s2,
              gpu = py_int (gpu_memory s2 * diffusers_offload_max_gpu_memory s2 * 1024 * 1024 * 1024),
              cpu = py_int (cpu_memory s2 * diffusers_offload_max_cpu_memory s2 * 1024 * 1024 * 1024),
              offload_map = [],
              param_map = []\<rparr>
     in (h, validate (emit Info_init s2)))"

text \<open>\<^verbatim>\<open>model_size\<close>: \<^verbatim>\<open>sum(self.offload_map.values())\<close>\<close>

definition model_size :: "hook \<Rightarrow> rat" where
  "model_size h = sum_list (map snd (offload_map h))"

subsection \<open>The placement hook: \<^verbatim>\<open>OffloadHook.pre_forward\<close>\<close>

text \<open>
  On the DirectML backend every integer entry of the device map is rewritten, in place, to
  \<^verbatim>\<open>f"{devices.device.type}:{index}"\<close>.
\<close>

definition directml_rewrite :: "string \<Rightarrow> device_map \<Rightarrow> device_map" where
  "directml_rewrite ty dm =
     map (\<lambda>(k, v). (k, case v of Dev_index i \<Rightarrow> Dev_name (ty @ '':'' @ string_of_nat i)
                                 | Dev_name n \<Rightarrow> Dev_name n)) dm"

text \<open>
  The body has no \<^verbatim>\<open>try\<close>: the one around \<^verbatim>\<open>infer_auto_device_map\<close> is commented out in
  the source. With the DirectML backend \<^verbatim>\<open>device_map.keys()\<close> is evaluated before the test
  \<^verbatim>\<open>device_map is not None\<close>, so a null map raises \<^verbatim>\<open>AttributeError\<close> there. A reused map is
  the dict stored on the module, so the rewrite changes the stored dict as well.
\<close>

definition pre_forward :: "externals \<Rightarrow> hook \<Rightarrow> module \<Rightarrow> state \<Rightarrow> (module \<times> state) result" where
  "pre_forward ext h m s =
    (if same_device (device m) (devices_device s) then Return (m, s)
     else
       let device_index = (case dev_index (devices_device s) of None \<Rightarrow> 0 | Some i \<Rightarrow> i);
           max_memory = \<lparr>mm_index = device_index, mm_gpu = gpu h, mm_cpu = cpu h\<rparr>;
           rebuild = (balanced_offload_device_map m = None
                      \<or> Some max_memory \<noteq> balanced_offload_max_memory m);
           s1 = (if rebuild then emit Infer_auto_device_map s else s)
       in case (if rebuild then infer_auto_device_map ext m max_memory
                else Inr (balanced_offload_device_map m)) of
            Inl e \<Rightarrow> Raise e (m, s1)
          | Inr device_map \<Rightarrow>
              let dir = (case offload_dir m of
                           Some d \<Rightarrow> d
                         | None \<Rightarrow> path_join (accelerate_offload_path s1) (cls_name m))
              in if devices_backend s1 = ''directml'' \<and> device_map = None
                 then Raise (AttributeError ''NoneType object has no attribute keys'') (m, s1)
                 else
                   let device_map1 = (if devices_backend s1 = ''directml''
                                      then map_option (directml_rewrite (dev_type (devices_device s1))) device_map
                                      else device_map);
                       m1 = (if rebuild then m else m\<lparr>balanced_offload_device_map := device_map1\<rparr>)
                   in case device_map1 of
                        None \<Rightarrow>
                          Return (m1\<lparr>execution_device := Some (devices_device s1),
                                     balanced_offload_device_map := device_map1,
                                     balanced_offload_max_memory := Some max_memory\<rparr>, s1)
                      | Some dm \<Rightarrow>
                          (case dispatch_model ext m1 dm dir of
                             Inl e \<Rightarrow> Raise e (m1, emit (Dispatch_model dir) s1)
                           | Inr m2 \<Rightarrow>
                               Return (m2\<lparr>execution_device := Some (devices_device s1),
                                          balanced_offload_device_map := device_map1,
                                          balanced_offload_max_memory := Some max_memory\<rparr>,
                                       emit (Dispatch_model dir) s1)))"

subsection \<open>The \<^verbatim>\<open>except Exception as e\<close> blocks\<close>

text \<open>
  The handler of \<^verbatim>\<open>post_forward\<close> and the handler of
  \<^verbatim>\<open>apply_balanced_offload_to_module\<close> are the same text but for the expression that
  names the module: \<^verbatim>\<open>module.__name__\<close> in the first, the loop variable
  \<^verbatim>\<open>module_name\<close> in the second. \<open>name\<close> is the value of that expression, \<open>None\<close>
  when evaluating it raises \<^verbatim>\<open>AttributeError\<close>. An exception raised inside a handler leaves
  the function.
\<close>

definition except_display :: "exn \<Rightarrow> string option \<Rightarrow> state \<Rightarrow> state result" where
  "except_display e name s =
    (if sd_move_debug_set s
     then (case name of
             None \<Rightarrow> Raise (AttributeError ''object has no attribute __name__'') s
           | Some n \<Rightarrow> Return (emit (Display n (str_of e)) s))
     else Return s)"

definition except_handler :: "exn \<Rightarrow> string option \<Rightarrow> state \<Rightarrow> state result" where
  "except_handler e name s =
    (if str_contains ''out of memory'' (str_of e)
     then except_display e name (emit (Torch_gc True (Some ''oom'')) s)
     else if str_contains ''bitsandbytes'' (str_of e)
     then except_display e name s
     else (case name of
             None \<Rightarrow> Raise (AttributeError ''object has no attribute __name__'') s
           | Some n \<Rightarrow> except_display e name (emit (Error_apply n (str_of e)) s)))"

subsection \<open>The eviction hook: \<^verbatim>\<open>OffloadHook.post_forward\<close>\<close>

text \<open>
  The result is the module, the value of the local variable \<^verbatim>\<open>used_gpu\<close> when the function
  is left (\<open>None\<close> when it was never assigned) and the state. \<^verbatim>\<open>devices.torch_gc\<close>
  and the division by \<^verbatim>\<open>shared.gpu_memory\<close> stand before the \<^verbatim>\<open>try\<close>.
\<close>

definition post_forward ::
  "externals \<Rightarrow> hook \<Rightarrow> module \<Rightarrow> state \<Rightarrow> (module \<times> rat option \<times> state) result" where
  "post_forward ext h m s =
    (if offload_post m \<and> device m \<noteq> devices_cpu then
       let used_gpu = fst (torch_gc ext (events s));
           s1 = emit (Torch_gc False None) s
       in if gpu_memory s1 = 0 then Raise ZeroDivisionError (m, Some used_gpu, s1)
          else
            let perc_gpu = used_gpu / gpu_memory s1;
                module_size = model_size h;
                prev_gpu = used_gpu;
                offload_now = (perc_gpu > diffusers_offload_min_gpu_memory s1)
            in if offload_now then
                 (case module_to_cpu ext m of
                    Some e \<Rightarrow>
                      (case except_handler e (dunder_name m) (emit To_cpu s1) of
                         Return s2 \<Rightarrow> Return (m, Some used_gpu, s2)
                       | Raise e' s2 \<Rightarrow> Raise e' (m, Some used_gpu, s2))
                  | None \<Rightarrow>
                      let s2 = emit To_cpu s1;
                          s3 = (if debug s2
                                then emit (Trace_offload ''post'' prev_gpu (used_gpu - module_size)) s2
                                else s2)
                      in Return (m\<lparr>device := devices_cpu\<rparr>, Some (used_gpu - module_size), s3))
               else
                 Return (m, Some used_gpu,
                         if debug s1 then emit (Trace_offload ''skip'' prev_gpu used_gpu) s1 else s1)
     else Return (m, None, s))"

subsection \<open>The orchestrator: \<^verbatim>\<open>apply_balanced_offload\<close>\<close>

definition balanced_offload_exclude :: "string list" where
  "balanced_offload_exclude = [''CogView4Pipeline'']"

definition offload_post_types :: "string list" where
  "offload_post_types = [''h1'']"

text \<open>
  \<^verbatim>\<open>sum(p.numel() * p.element_size() for p in ...) / 1024 / 1024 / 1024\<close> and
  \<^verbatim>\<open>sum(p.numel() for p in ...) / 1024 / 1024 / 1024\<close>
\<close>

definition size_gb :: "(nat \<times> nat) list \<Rightarrow> rat" where
  "size_gb ps = of_nat (sum_list (map (\<lambda>(n, w). n * w) ps)) / 1024 / 1024 / 1024"

definition params_gb :: "(nat \<times> nat) list \<Rightarrow> rat" where
  "params_gb ps = of_nat (sum_list (map fst ps)) / 1024 / 1024 / 1024"

text \<open>
  The loop of \<^verbatim>\<open>get_pipe_modules\<close>. \<open>param_num\<close> is the local variable of that name:
  \<open>None\<close> while it is unbound. It is assigned only inside the \<^verbatim>\<open>try\<close>, and read after
  the \<^verbatim>\<open>except\<close>, which assigns \<^verbatim>\<open>module_size = 0\<close> alone.
\<close>

fun get_pipe_modules_loop ::
  "attrs \<Rightarrow> string list \<Rightarrow> rat option \<Rightarrow> (string \<times> rat) list \<Rightarrow> hook \<Rightarrow> state
   \<Rightarrow> ((string \<times> rat) list \<times> hook \<times> state) result" where
  "get_pipe_modules_loop p [] param_num modules h s = Return (modules, h, s)"
| "get_pipe_modules_loop p (module_name # names) param_num modules h s =
    (case map_of (offload_map h) module_name of
       Some module_size \<Rightarrow>
         get_pipe_modules_loop p names param_num (AList.update module_name module_size modules) h s
     | None \<Rightarrow>
        (case getattr p module_name of
           Module m \<Rightarrow>
            (case parameters m of
               Inr ps \<Rightarrow>
                 get_pipe_modules_loop p names (Some (params_gb ps))
                   (AList.update module_name (size_gb ps) modules)
                   (h\<lparr>offload_map := AList.update module_name (size_gb ps) (offload_map h),
                      param_map := AList.update module_name (params_gb ps) (param_map h)\<rparr>)
                   s
             | Inl e \<Rightarrow>
                (case param_num of
                   None \<Rightarrow>
                     Raise (UnboundLocalError ''param_num'')
                       (modules,
                        h\<lparr>offload_map := AList.update module_name 0 (offload_map h)\<rparr>,
                        emit (Error_calc module_name (str_of e)) s)
                 | Some stale \<Rightarrow>
                     get_pipe_modules_loop p names param_num
                       (AList.update module_name 0 modules)
                       (h\<lparr>offload_map := AList.update module_name 0 (offload_map h),
                          param_map := AList.update module_name stale (param_map h)\<rparr>)
                       (emit (Error_calc module_name (str_of e)) s)))
         | _ \<Rightarrow> get_pipe_modules_loop p names param_num modules h s))"

text \<open>
  \<^verbatim>\<open>sorted(modules.items(), key=lambda x: x[1], reverse=True)\<close>: descending by size, entries
  of equal size in their original order.
\<close>

definition get_pipe_modules ::
  "string list \<Rightarrow> attrs \<Rightarrow> hook \<Rightarrow> state \<Rightarrow> ((string \<times> rat) list \<times> hook \<times> state) result" where
  "get_pipe_modules exclude p h s =
    (case get_pipe_modules_loop p
            [m \<leftarrow> map fst p. m \<notin> set exclude \<and> \<not> startswith m ''_''] None [] h s of
       Return (modules, h', s') \<Rightarrow> Return (sort_key (\<lambda>x. - snd x) modules, h', s')
     | Raise e r \<Rightarrow> Raise e r)"

text \<open>
  Modelled from the spec: \<^verbatim>\<open>accelerate.hooks.remove_hook_from_module\<close> and
  \<^verbatim>\<open>accelerate.hooks.add_hook_to_module(..., append=True)\<close> (library code, not part of the
  sources at hand): "detach any stale hook, reattach the current placement+eviction hook
  pair"; appending to a module that carries a hook stacks the new one behind it.
\<close>

definition remove_hook_from_module :: "module \<Rightarrow> module" where
  "remove_hook_from_module m = m\<lparr>hf_hook := [], execution_device := None\<rparr>"

definition add_hook_to_module :: "module \<Rightarrow> hook \<Rightarrow> module" where
  "add_hook_to_module m h = m\<lparr>hf_hook := hf_hook m @ [checkpoint_name h]\<rparr>"

text \<open>
  The \<^verbatim>\<open>try\<close> block of \<^verbatim>\<open>apply_balanced_offload_to_module\<close> for one module. The debug
  line formats \<^verbatim>\<open>param_map[module_name]\<close> and \<^verbatim>\<open>offload_map[module_name]\<close>, which raise
  \<^verbatim>\<open>KeyError\<close> for a missing key.
\<close>

definition offload_try ::
  "externals \<Rightarrow> bool \<Rightarrow> hook \<Rightarrow> string \<Rightarrow> rat \<Rightarrow> module \<Rightarrow> rat \<Rightarrow> state
   \<Rightarrow> (module \<times> rat \<times> state) result" where
  "offload_try ext cached h module_name module_size m used_gpu s =
    (let perc_gpu = used_gpu / gpu_memory s;
         prev_gpu = used_gpu;
         offload_now = (perc_gpu > diffusers_offload_min_gpu_memory s \<and> device m \<noteq> devices_cpu)
     in case (if offload_now then module_to_cpu ext m else None) of
          Some e \<Rightarrow> Raise e (m, used_gpu, emit To_cpu s)
        | None \<Rightarrow>
            let m1 = (if offload_now then m\<lparr>device := devices_cpu\<rparr> else m);
                used1 = (if offload_now then used_gpu - module_size else used_gpu);
                s1 = (if offload_now then emit To_cpu s else s)
            in if \<not> cached \<and> (map_of (param_map h) module_name = None
                               \<or> map_of (offload_map h) module_name = None)
               then Raise (KeyError module_name) (m1, used1, s1)
               else
                 let s2 = (if \<not> cached then emit (Debug_model module_name) s1 else s1);
                     s3 = (if debug s2
                           then emit (Trace_offload (if offload_now then ''move'' else ''skip'')
                                        prev_gpu used1) s2
                           else s2)
                 in Return (m1, used1, s3))"

text \<open>The statements after the \<^verbatim>\<open>try\<close>: the hook is attached and the attributes are set.\<close>

definition attach :: "string \<Rightarrow> hook \<Rightarrow> string \<Rightarrow> module \<Rightarrow> module \<Rightarrow> state \<Rightarrow> module" where
  "attach checkpoint h module_name m0 m s =
    (let m1 = m\<lparr>offload_dir :=
                  Some (path_join (path_join (accelerate_offload_path s) checkpoint) module_name)\<rparr>;
         m2 = add_hook_to_module m1 h;
         m3 = m2\<lparr>execution_device := Some (devices_device s)\<rparr>;
         m4 = (case network_layer_name m0 of
                 Some n \<Rightarrow> if n \<noteq> [] then m3\<lparr>network_layer_name := Some n\<rparr> else m3
               | None \<Rightarrow> m3);
         m5 = (case (balanced_offload_device_map m0, balanced_offload_max_memory m0) of
                 (Some dm, Some mm) \<Rightarrow>
                   if dm \<noteq> [] then m4\<lparr>balanced_offload_device_map := Some dm,
                                        balanced_offload_max_memory := Some mm\<rparr>
                   else m4
               | _ \<Rightarrow> m4)
     in m5\<lparr>offload_post := (sd_model_type s \<in> set offload_post_types \<and> te_hijack s
                             \<and> startswith module_name ''text_encoder'')\<rparr>)"

text \<open>
  The body of the loop of \<^verbatim>\<open>apply_balanced_offload_to_module\<close> for a module \<open>m\<close>.
  The hook is removed and \<^verbatim>\<open>used_gpu / shared.gpu_memory\<close> is computed before the
  \<^verbatim>\<open>try\<close>.
\<close>

definition offload_module ::
  "externals \<Rightarrow> string \<Rightarrow> bool \<Rightarrow> hook \<Rightarrow> string \<Rightarrow> rat \<Rightarrow> module \<Rightarrow> rat \<Rightarrow> state
   \<Rightarrow> (module \<times> rat \<times> state) result" where
  "offload_module ext checkpoint cached h module_name module_size m used_gpu s =
    (let m1 = remove_hook_from_module m
     in if gpu_memory s = 0 then Raise ZeroDivisionError (m1, used_gpu, s)
        else
          case offload_try ext cached h module_name module_size m1 used_gpu s of
            Return (m2, used1, s1) \<Rightarrow> Return (attach checkpoint h module_name m m2 s1, used1, s1)
          | Raise e (m2, used1, s1) \<Rightarrow>
             (case except_handler e (Some module_name) s1 of
                Return s2 \<Rightarrow> Return (attach checkpoint h module_name m m2 s2, used1, s2)
              | Raise e' s2 \<Rightarrow> Raise e' (m2, used1, s2)))"

text \<open>
  The loop itself. A name whose attribute is \<^verbatim>\<open>None\<close> is skipped. An object that is no
  module reaches this loop only through a size cached under its name;
  \<^verbatim>\<open>remove_hook_from_module(..., recurse=True)\<close> then calls \<^verbatim>\<open>children()\<close> on it.
\<close>

fun offload_loop ::
  "externals \<Rightarrow> string \<Rightarrow> bool \<Rightarrow> hook \<Rightarrow> (string \<times> rat) list \<Rightarrow> rat \<Rightarrow> attrs \<Rightarrow> state
   \<Rightarrow> (attrs \<times> state) result" where
  "offload_loop ext checkpoint cached h [] used_gpu p s = Return (p, s)"
| "offload_loop ext checkpoint cached h ((module_name, module_size) # rest) used_gpu p s =
    (case getattr p module_name of
       NoneC \<Rightarrow> offload_loop ext checkpoint cached h rest used_gpu p s
     | NonModule \<Rightarrow> Raise (AttributeError ''object has no attribute children'') (p, s)
     | Module m \<Rightarrow>
        (case offload_module ext checkpoint cached h module_name module_size m used_gpu s of
           Return (m', used1, s1) \<Rightarrow>
             offload_loop ext checkpoint cached h rest used1
               (AList.update module_name (Module m') p) s1
         | Raise e (m', used1, s1) \<Rightarrow>
             Raise e (AList.update module_name (Module m') p, s1)))"

definition apply_balanced_offload_to_module ::
  "externals \<Rightarrow> string \<Rightarrow> bool \<Rightarrow> string list \<Rightarrow> attrs \<Rightarrow> hook \<Rightarrow> state
   \<Rightarrow> (attrs \<times> hook \<times> state) result" where
  "apply_balanced_offload_to_module ext checkpoint cached exclude p h s =
    (let used_gpu = fst (torch_gc ext (events s));
         s1 = emit (Torch_gc False None) s
     in case get_pipe_modules exclude p h s1 of
          Raise e (modules, h1, s2) \<Rightarrow> Raise e (p, h1, s2)
        | Return (modules, h1, s2) \<Rightarrow>
           (case offload_loop ext checkpoint cached h1 modules used_gpu p s2 of
              Raise e (p1, s3) \<Rightarrow> Raise e (p1, h1, s3)
            | Return (p1, s3) \<Rightarrow> Return (p1, h1, emit (Torch_gc True (Some ''offload'')) s3)))"

text \<open>
  The local variable \<^verbatim>\<open>checkpoint_name\<close>: the name of \<^verbatim>\<open>sd_checkpoint_info\<close>, or the
  class name of the pipeline when there is none.
\<close>

definition checkpoint_of :: "pipeline \<Rightarrow> string" where
  "checkpoint_of model =
    (case (case sd_checkpoint_info model of None \<Rightarrow> None | Some n \<Rightarrow> n) of
       None \<Rightarrow> class_name model
     | Some n \<Rightarrow> n)"

text \<open>
  The test that decides between the existing manager and a new one; the result is the
  flag \<^verbatim>\<open>cached\<close>, the manager in use and the state.
\<close>

definition select_hook :: "string \<Rightarrow> state \<Rightarrow> bool \<times> hook \<times> state" where
  "select_hook checkpoint s =
    (case offload_hook_instance s of
       None \<Rightarrow> (case OffloadHook_init checkpoint s of (h, s1) \<Rightarrow> (False, h, s1))
     | Some h0 \<Rightarrow>
         if min_watermark h0 \<noteq> diffusers_offload_min_gpu_memory s
            \<or> max_watermark h0 \<noteq> diffusers_offload_max_gpu_memory s
            \<or> checkpoint \<noteq> checkpoint_name h0
         then (case OffloadHook_init checkpoint s of (h, s1) \<Rightarrow> (False, h, s1))
         else (True, h0, s))"

text \<open>
  One call of \<^verbatim>\<open>apply_balanced_offload_to_module\<close> on the pipeline itself or on a nested
  pipeline, where it exists; \<open>sel\<close> reads the attribute and \<open>upd\<close> writes it.
\<close>

definition apply_pass ::
  "externals \<Rightarrow> string \<Rightarrow> bool \<Rightarrow> string list
   \<Rightarrow> (pipeline \<Rightarrow> attrs option) \<Rightarrow> (attrs \<Rightarrow> pipeline \<Rightarrow> pipeline)
   \<Rightarrow> (pipeline \<times> hook \<times> state) result \<Rightarrow> (pipeline \<times> hook \<times> state) result" where
  "apply_pass ext checkpoint cached exclude sel upd r =
    (case r of
       Raise e b \<Rightarrow> Raise e b
     | Return (model, h, s) \<Rightarrow>
        (case sel model of
           None \<Rightarrow> Return (model, h, s)
         | Some p \<Rightarrow>
            (case apply_balanced_offload_to_module ext checkpoint cached exclude p h s of
               Return (p1, h1, s1) \<Rightarrow> Return (upd p1 model, h1, s1)
             | Raise e (p1, h1, s1) \<Rightarrow> Raise e (upd p1 model, h1, s1))))"

text \<open>
  \<^verbatim>\<open>apply_balanced_offload(sd_model, exclude)\<close>. The manager is the global
  \<^verbatim>\<open>offload_hook_instance\<close>, so its caches keep what was written when an exception leaves
  the function. Of \<^verbatim>\<open>set_accelerate\<close> only the flag \<^verbatim>\<open>has_accelerate\<close> of the pipeline is
  kept; the timer and the stack inspection for the trace line are left out. The pipeline
  worked on is returned; the field \<open>sd_model\<close> of the state is only read.
\<close>

definition apply_balanced_offload ::
  "externals \<Rightarrow> pipeline option \<Rightarrow> string list \<Rightarrow> state \<Rightarrow> (pipeline option \<times> state) result" where
  "apply_balanced_offload ext arg exclude s =
    (if diffusers_offload_mode s \<noteq> ''balanced'' then Return (arg, s)
     else
       case (case arg of None \<Rightarrow> if \<not> sd_loaded s then None else sd_model s | Some x \<Rightarrow> Some x) of
         None \<Rightarrow> Return (None, s)
       | Some model \<Rightarrow>
          if class_name model \<in> set balanced_offload_exclude then Return (Some model, s)
          else
            let checkpoint = checkpoint_of model
            in case select_hook checkpoint s of
                 (cached, h, s1) \<Rightarrow>
                   (case apply_pass ext checkpoint cached exclude decoder_pipe
                            (\<lambda>p m. m\<lparr>decoder_pipe := Some p\<rparr>)
                          (apply_pass ext checkpoint cached exclude prior_pipe
                            (\<lambda>p m. m\<lparr>prior_pipe := Some p\<rparr>)
                          (apply_pass ext checkpoint cached exclude pipe
                            (\<lambda>p m. m\<lparr>pipe := Some p\<rparr>)
                          (apply_pass ext checkpoint cached exclude (\<lambda>m. Some (components m))
                            (\<lambda>p m. m\<lparr>components := p\<rparr>)
                          (Return (model, h, s1\<lparr>offload_hook_instance := Some h\<rparr>))))) of
                      Raise e (model1, h1, s2) \<Rightarrow>
                        Raise e (Some model1, s2\<lparr>offload_hook_instance := Some h1\<rparr>)
                    | Return (model1, h1, s2) \<Rightarrow>
                        let s3 = (if layerwise_quantization s2 then emit Apply_layerwise s2 else s2);
                            model2 = model1\<lparr>has_accelerate := True\<rparr>;
                            s4 = (if debug s3 then emit Trace_apply s3 else s3);
                            s5 = (if \<not> cached
                                  then emit (Info_model (class_name model2) (length (offload_map h1))
                                               (model_size h1)) s4
                                  else s4)
                        in Return (Some model2, s5\<lparr>offload_hook_instance := Some h1\<rparr>)))"

subsection \<open>The device-map builder\<close>

text \<open>
  Modelled from the spec: the device-map builder. The code calls
  \<^verbatim>\<open>accelerate.infer_auto_device_map(module, max_memory=max_memory)\<close>, a library function
  that is not part of the sources at hand. The spec (4.3): "Returns null when the whole
  submodule fits in \<^verbatim>\<open>max_accelerator_bytes\<close> (no split needed). Otherwise performs a greedy
  bin-packing over the submodule's parameter/buffer tree: descend the tree, assign each leaf
  tensor to the accelerator while cumulative assigned bytes stay under
  \<^verbatim>\<open>max_accelerator_bytes\<close>, otherwise assign to host while cumulative host bytes stay under
  \<^verbatim>\<open>max_host_bytes\<close>; exceeding both budgets is reported as an allocation-shortfall
  condition (placement proceeds anyway)". The leaves are the parameters of the module, named
  by their position.
\<close>

definition total_bytes :: "(nat \<times> nat) list \<Rightarrow> int" where
  "total_bytes ps = int (sum_list (map (\<lambda>(n, w). n * w) ps))"

fun greedy_pack :: "max_memory \<Rightarrow> nat \<Rightarrow> int \<Rightarrow> int \<Rightarrow> (nat \<times> nat) list \<Rightarrow> device_map" where
  "greedy_pack mm i on_gpu on_cpu [] = []"
| "greedy_pack mm i on_gpu on_cpu ((n, w) # ps) =
    (if on_gpu + int (n * w) \<le> mm_gpu mm
     then (string_of_nat i, Dev_index (mm_index mm))
            # greedy_pack mm (Suc i) (on_gpu + int (n * w)) on_cpu ps
     else (string_of_nat i, Dev_name ''cpu'')
            # greedy_pack mm (Suc i) on_gpu (on_cpu + int (n * w)) ps)"

definition build_map :: "module \<Rightarrow> max_memory \<Rightarrow> exn + device_map option" where
  "build_map m mm =
    (case parameters m of
       Inl e \<Rightarrow> Inl e
     | Inr ps \<Rightarrow>
         if total_bytes ps \<le> mm_gpu mm then Inr None
         else Inr (Some (greedy_pack mm 0 0 0 ps)))"

subsection \<open>Concrete inputs\<close>

definition example_state :: state where
  "example_state =
    \<lparr>diffusers_offload_mode = ''balanced'',
     diffusers_offload_min_gpu_memory = 2 / 10,
     diffusers_offload_max_gpu_memory = 7 / 10,
     diffusers_offload_max_cpu_memory = 75 / 100,
     accelerate_offload_path = ''cache'',
     te_hijack = True,
     gpu_memory = 24,
     cpu_memory = 64,
     sd_model_type = ''h1'',
     sd_move_debug = None,
     devices_device = Device ''cuda'' None,
     devices_backend = ''cuda'',
     layerwise_quantization = False,
     sd_loaded = False,
     sd_model = None,
     offload_hook_instance = None,
     events = []\<rparr>"

definition example_hook :: hook where
  "example_hook =
    \<lparr>checkpoint_name = ''model'',
     min_watermark = 2 / 10,
     max_watermark = 7 / 10,
     cpu_watermark = 75 / 100,
     gpu = 18038862643,
     cpu = 51539607552,
     offload_map = [(''unet'', 5), (''text_encoder'', 1 / 4)],
     param_map = [(''unet'', 5 / 2), (''text_encoder'', 1 / 8)]\<rparr>"

definition example_module :: module where
  "example_module =
    \<lparr>device = Device ''cpu'' None,
     balanced_offload_device_map = None,
     balanced_offload_max_memory = None,
     offload_post = False,
     hf_hook = [''model''],
     execution_device = None,
     network_layer_name = None,
     offload_dir = None,
     dunder_name = None,
     cls_name = ''T5EncoderModel'',
     parameters = Inr [(1024, 2), (256, 4)]\<rparr>"

text \<open>Library calls that succeed: the reading is 20 GB of 24 GB in use.\<close>

definition example_externals :: externals where
  "example_externals =
    \<lparr>infer_auto_device_map = (\<lambda>m mm. Inr (Some [([], Dev_index (mm_index mm))])),
     dispatch_model = (\<lambda>m dm dir. Inr (m\<lparr>device := Device ''cuda'' (Some 0)\<rparr>)),
     module_to_cpu = (\<lambda>m. None),
     torch_gc = (\<lambda>evs. (20, 30))\<rparr>"

text \<open>Library calls that raise.\<close>

definition failing_externals :: externals where
  "failing_externals =
    \<lparr>infer_auto_device_map = (\<lambda>m mm. Inl (Exception ''CUDA out of memory'')),
     dispatch_model = (\<lambda>m dm dir. Inl (Exception ''CUDA out of memory'')),
     module_to_cpu = (\<lambda>m. Some (Exception ''CUDA error: unspecified launch failure'')),
     torch_gc = (\<lambda>evs. (20, 30))\<rparr>"

text \<open>A pipeline whose checkpoint is \<^verbatim>\<open>model\<close>, with one module and a tokenizer.\<close>

definition example_pipeline :: pipeline where
  "example_pipeline =
    \<lparr>class_name = ''StableDiffusionPipeline'',
     sd_checkpoint_info = Some (Some ''model''),
     components = [(''text_encoder'', Module example_module), (''tokenizer'', NonModule)],
     pipe = None,
     prior_pipe = None,
     decoder_pipe = None,
     has_accelerate = False\<rparr>"

text \<open>A module on the accelerator that is flagged for eviction after its forward pass.\<close>

definition flagged_module :: module where
  "flagged_module = example_module\<lparr>device := Device ''cuda'' (Some 0), offload_post := True\<rparr>"

text \<open>A module on the accelerator that is not flagged.\<close>

definition resident_module :: module where
  "resident_module = example_module\<lparr>device := Device ''cuda'' (Some 0)\<rparr>"

text \<open>A module on the host that carries a device map built for the budgets of \<open>example_hook\<close>.\<close>

definition cached_module :: module where
  "cached_module = example_module
     \<lparr>balanced_offload_device_map := Some [([], Dev_index 0)],
      balanced_offload_max_memory :=
        Some \<lparr>mm_index = 0, mm_gpu = 18038862643, mm_cpu = 51539607552\<rparr>\<rparr>"

text \<open>The move to the host fails with an out-of-memory message.\<close>

definition oom_externals :: externals where
  "oom_externals =
     example_externals\<lparr>module_to_cpu := (\<lambda>m. Some (Exception ''CUDA out of memory''))\<rparr>"

text \<open>Options as a settings file can hold them: a low watermark of 0 and a high one of 1.5.\<close>

definition invalid_state :: state where
  "invalid_state = example_state\<lparr>diffusers_offload_min_gpu_memory := 0,
                                 diffusers_offload_max_gpu_memory := 3 / 2\<rparr>"

text \<open>A low watermark of 1.5.\<close>

definition low_invalid_state :: state where
  "low_invalid_state = example_state\<lparr>diffusers_offload_min_gpu_memory := 3 / 2\<rparr>"

text \<open>A high watermark of 0.05.\<close>

definition high_invalid_state :: state where
  "high_invalid_state = example_state\<lparr>diffusers_offload_max_gpu_memory := 1 / 20\<rparr>"

text \<open>
  A module on the host whose stored map was built for the budgets of \<open>example_hook\<close> on the
  device of index 1.
\<close>

definition moved_index_module :: module where
  "moved_index_module = example_module
     \<lparr>balanced_offload_device_map := Some [([], Dev_index 1)],
      balanced_offload_max_memory :=
        Some \<lparr>mm_index = 1, mm_gpu = 18038862643, mm_cpu = 51539607552\<rparr>\<rparr>"

text \<open>A module on the host whose stored map was built for an accelerator budget of 1 GB.\<close>

definition stale_module :: module where
  "stale_module = example_module
     \<lparr>balanced_offload_device_map := Some [([], Dev_name ''cpu'')],
      balanced_offload_max_memory :=
        Some \<lparr>mm_index = 0, mm_gpu = 1073741824, mm_cpu = 51539607552\<rparr>\<rparr>"

text \<open>Library calls that succeed, with a reading of 2 GB of 24 GB in use.\<close>

definition idle_externals :: externals where
  "idle_externals = example_externals\<lparr>torch_gc := (\<lambda>evs. (2, 30))\<rparr>"

text \<open>A pipeline whose first module cannot be measured, followed by one that can.\<close>

definition broken_pipeline :: pipeline where
  "broken_pipeline =
     example_pipeline
       \<lparr>components :=
          [(''text_encoder'',
            Module (example_module\<lparr>parameters := Inl (Exception ''unexpected type'')\<rparr>)),
           (''unet'', Module example_module)]\<rparr>"

subsection \<open>Notions for the statements\<close>

text \<open>The value a result carries, whether the function returned or raised.\<close>

fun payload :: "'a result \<Rightarrow> 'a" where
  "payload (Return x) = x"
| "payload (Raise e x) = x"

text \<open>
  \<open>logs_after s s'\<close>: the state \<open>s'\<close> is \<open>s\<close> with further events, none of them the
  line that the constructor of \<^verbatim>\<open>OffloadHook\<close> logs.
\<close>

definition logs_after :: "state \<Rightarrow> state \<Rightarrow> bool" where
  "logs_after s s' \<longleftrightarrow> (\<exists>evs. s' = s\<lparr>events := events s @ evs\<rparr> \<and> Info_init \<notin> set evs)"

text \<open>
  \<open>same_config h h'\<close>: the manager \<open>h'\<close> is \<open>h\<close> but for its two caches.
\<close>

definition same_config :: "hook \<Rightarrow> hook \<Rightarrow> bool" where
  "same_config h h' \<longleftrightarrow> h' = h\<lparr>offload_map := offload_map h', param_map := param_map h'\<rparr>"

section \<open>Properties\<close>

subsection \<open>Basic facts\<close>

lemma emit_fields [simp]:
  "events (emit e s) = events s @ [e]"
  "gpu_memory (emit e s) = gpu_memory s"
  "diffusers_offload_min_gpu_memory (emit e s) = diffusers_offload_min_gpu_memory s"
  "diffusers_offload_max_gpu_memory (emit e s) = diffusers_offload_max_gpu_memory s"
  "diffusers_offload_max_cpu_memory (emit e s) = diffusers_offload_max_cpu_memory s"
  "diffusers_offload_mode (emit e s) = diffusers_offload_mode s"
  "devices_device (emit e s) = devices_device s"
  "devices_backend (emit e s) = devices_backend s"
  "accelerate_offload_path (emit e s) = accelerate_offload_path s"
  "sd_move_debug (emit e s) = sd_move_debug s"
  "offload_hook_instance (emit e s) = offload_hook_instance s"
  "sd_model_type (emit e s) = sd_model_type s"
  "te_hijack (emit e s) = te_hijack s"
  by (simp_all add: emit_def)

lemma debug_emit [simp]:
  "debug (emit e s) = debug s"
  "sd_move_debug_set (emit e s) = sd_move_debug_set s"
  by (simp_all add: debug_def sd_move_debug_set_def)

text \<open>With the loop variable at hand the handler always returns.\<close>

lemma except_handler_named: "\<exists>s'. except_handler e (Some n) s = Return s'"
  by (simp add: except_handler_def except_display_def)

lemma except_handler_classified:
  "\<not> sd_move_debug_set s
   \<Longrightarrow> str_contains ''out of memory'' (str_of e) \<or> str_contains ''bitsandbytes'' (str_of e)
   \<Longrightarrow> \<exists>s'. except_handler e name s = Return s'"
  by (auto simp add: except_handler_def except_display_def)

text \<open>
  In the handler of the orchestrator, without \<^verbatim>\<open>SD_MOVE_DEBUG\<close>: a forced collection for
  "out of memory", nothing for "bitsandbytes", an error line naming the module otherwise.
\<close>

lemma except_handler_orchestrator:
  "\<not> sd_move_debug_set s \<Longrightarrow>
   except_handler e (Some n) s =
     Return (if str_contains ''out of memory'' (str_of e)
             then emit (Torch_gc True (Some ''oom'')) s
             else if str_contains ''bitsandbytes'' (str_of e) then s
             else emit (Error_apply n (str_of e)) s)"
  by (simp add: except_handler_def except_display_def)

lemma validate_max:
  "diffusers_offload_mode s = ''balanced'' \<Longrightarrow>
   diffusers_offload_max_gpu_memory (validate s)
     = (if diffusers_offload_max_gpu_memory s < 1 / 10 \<or> 1 < diffusers_offload_max_gpu_memory s
        then 7 / 10 else diffusers_offload_max_gpu_memory s)"
  by (simp add: validate_def emit_def Let_def)

lemma validate_min:
  "diffusers_offload_mode s = ''balanced'' \<Longrightarrow>
   diffusers_offload_min_gpu_memory (validate s)
     = min (if diffusers_offload_min_gpu_memory s < 0 \<or> 1 < diffusers_offload_min_gpu_memory s
            then 1 / 5 else diffusers_offload_min_gpu_memory s)
           (if diffusers_offload_max_gpu_memory s < 1 / 10 \<or> 1 < diffusers_offload_max_gpu_memory s
            then 7 / 10 else diffusers_offload_max_gpu_memory s)"
  by (simp add: validate_def emit_def Let_def min_def)

lemma validate_events_exact:
  assumes "diffusers_offload_mode s = ''balanced''"
    and "lo = (if diffusers_offload_min_gpu_memory s < 0 \<or> 1 < diffusers_offload_min_gpu_memory s
               then 1 / 5 else diffusers_offload_min_gpu_memory s)"
    and "hi = (if diffusers_offload_max_gpu_memory s < 1 / 10 \<or> 1 < diffusers_offload_max_gpu_memory s
               then 7 / 10 else diffusers_offload_max_gpu_memory s)"
  shows "events (validate s)
     = events s
       @ (if diffusers_offload_min_gpu_memory s < 0 \<or> 1 < diffusers_offload_min_gpu_memory s
          then [Warn_low_invalid] else [])
       @ (if diffusers_offload_max_gpu_memory s < 1 / 10 \<or> 1 < diffusers_offload_max_gpu_memory s
          then [Warn_high_invalid] else [])
       @ (if hi < lo then [Warn_low_reset] else [])
       @ (if hi * gpu_memory s < 4 then [Warn_low_memory] else [])"
  using assms(1) unfolding assms(2,3)
  by (simp add: validate_def emit_def Let_def)

lemma validate_other [simp]:
  "diffusers_offload_max_cpu_memory (validate s) = diffusers_offload_max_cpu_memory s"
  "diffusers_offload_mode (validate s) = diffusers_offload_mode s"
  "offload_hook_instance (validate s) = offload_hook_instance s"
  "gpu_memory (validate s) = gpu_memory s"
  "devices_device (validate s) = devices_device s"
  by (simp_all add: validate_def emit_def Let_def)

subsection \<open>Failures inside the hooks\<close>

text \<open>
  C1, as stated: no failure raised inside the placement hook or the eviction hook leaves
  the hook. This fails for the placement hook: \<^verbatim>\<open>pre_forward\<close> has no handler, and an
  exception of \<^verbatim>\<open>infer_auto_device_map\<close> leaves it.
\<close>

theorem pre_forward_propagates_failure:
  "pre_forward failing_externals example_hook example_module example_state
     = Raise (Exception ''CUDA out of memory'')
         (example_module, emit Infer_auto_device_map example_state)"
  by (simp add: pre_forward_def failing_externals_def example_module_def example_state_def
      same_device_def Let_def emit_def)

text \<open>
  C1, amended: a failure of the move to the host inside the eviction hook is caught there
  (the hook returns) when the total accelerator memory is not zero and the handler has no
  need of a missing \<^verbatim>\<open>__name__\<close>: the module has the attribute, or the message is classified
  (it contains "out of memory" or "bitsandbytes") and \<^verbatim>\<open>SD_MOVE_DEBUG\<close> is not set.
  The placement hook catches nothing: an exception of the device-map inference leaves
  \<^verbatim>\<open>pre_forward\<close> as it is.
\<close>

theorem hook_failure_containment:
  "(gpu_memory s \<noteq> 0 \<and>
     (\<forall>e. module_to_cpu ext m = Some e \<longrightarrow>
        dunder_name m \<noteq> None \<or>
        (\<not> sd_move_debug_set s \<and>
         (str_contains ''out of memory'' (str_of e) \<or> str_contains ''bitsandbytes'' (str_of e))))
     \<longrightarrow> (\<exists>r. post_forward ext h m s = Return r))
   \<and> (\<not> same_device (device m) (devices_device s) \<and> balanced_offload_device_map m = None \<and>
       infer_auto_device_map ext m
         \<lparr>mm_index = (case dev_index (devices_device s) of None \<Rightarrow> 0 | Some i \<Rightarrow> i),
          mm_gpu = gpu h, mm_cpu = cpu h\<rparr> = Inl e0
     \<longrightarrow> pre_forward ext h m s = Raise e0 (m, emit Infer_auto_device_map s))"
proof (intro conjI impI)
  assume a: "gpu_memory s \<noteq> 0 \<and>
     (\<forall>e. module_to_cpu ext m = Some e \<longrightarrow>
        dunder_name m \<noteq> None \<or>
        (\<not> sd_move_debug_set s \<and>
         (str_contains ''out of memory'' (str_of e) \<or> str_contains ''bitsandbytes'' (str_of e))))"
  show "\<exists>r. post_forward ext h m s = Return r"
  proof (cases "module_to_cpu ext m")
    case None
    then show ?thesis using a by (simp add: post_forward_def Let_def)
  next
    case (Some e)
    with a have c: "dunder_name m \<noteq> None \<or>
        (\<not> sd_move_debug_set s \<and>
         (str_contains ''out of memory'' (str_of e) \<or> str_contains ''bitsandbytes'' (str_of e)))"
      by blast
    have "\<exists>s'. except_handler e (dunder_name m) (emit To_cpu (emit (Torch_gc False None) s))
            = Return s'"
      using c except_handler_named [of e _ "emit To_cpu (emit (Torch_gc False None) s)"]
        except_handler_classified [of "emit To_cpu (emit (Torch_gc False None) s)" e "dunder_name m"]
      by auto
    then show ?thesis using a Some by (auto simp add: post_forward_def Let_def)
  qed
next
  assume "\<not> same_device (device m) (devices_device s) \<and> balanced_offload_device_map m = None \<and>
       infer_auto_device_map ext m
         \<lparr>mm_index = (case dev_index (devices_device s) of None \<Rightarrow> 0 | Some i \<Rightarrow> i),
          mm_gpu = gpu h, mm_cpu = cpu h\<rparr> = Inl e0"
  then show "pre_forward ext h m s = Raise e0 (m, emit Infer_auto_device_map s)"
    by (simp add: pre_forward_def Let_def)
qed

theorem hook_failure_containment_witness:
  "gpu_memory example_state \<noteq> 0
   \<and> module_to_cpu oom_externals flagged_module = Some (Exception ''CUDA out of memory'')
   \<and> str_contains ''out of memory'' (str_of (Exception ''CUDA out of memory''))
   \<and> \<not> sd_move_debug_set example_state
   \<and> (\<exists>r. post_forward oom_externals example_hook flagged_module example_state = Return r)
   \<and> \<not> same_device (device example_module) (devices_device example_state)
   \<and> balanced_offload_device_map example_module = None
   \<and> (\<exists>r. pre_forward failing_externals example_hook example_module example_state
        = Raise (Exception ''CUDA out of memory'') r)"
  using hook_failure_containment [of example_state oom_externals flagged_module example_hook
          "Exception ''CUDA out of memory''"]
    hook_failure_containment [of example_state failing_externals example_module example_hook
          "Exception ''CUDA out of memory''"]
  by (simp add: oom_externals_def example_externals_def failing_externals_def flagged_module_def
      example_module_def example_state_def sd_move_debug_set_def same_device_def)

text \<open>
  C8, at the failing input: the move to the host of a flagged module raises with a message
  that is neither "out of memory" nor "bitsandbytes". The handler of \<^verbatim>\<open>post_forward\<close>
  formats \<^verbatim>\<open>module.__name__\<close>, which the module does not have: nothing is logged, and
  \<^verbatim>\<open>AttributeError\<close> leaves the hook.
\<close>

theorem post_forward_unclassified_raises:
  "post_forward failing_externals example_hook flagged_module example_state
     = Raise (AttributeError ''object has no attribute __name__'')
         (flagged_module, Some 20, emit To_cpu (emit (Torch_gc False None) example_state))
   \<and> module_to_cpu failing_externals flagged_module
       = Some (Exception ''CUDA error: unspecified launch failure'')
   \<and> dunder_name flagged_module = None"
  by (simp add: post_forward_def failing_externals_def flagged_module_def example_module_def
      example_state_def devices_cpu_def except_handler_def Let_def emit_def)

subsection \<open>Eviction after the forward pass\<close>

text \<open>
  C2, as stated: every module that is not on the host is moved there when the occupancy
  is above the low watermark, and its own cached size is subtracted from the estimate.
  This fails for a module without the flag \<^verbatim>\<open>offload_post\<close>: with 20 GB of 24 GB in use
  and a low watermark of 0.2 the module stays where it is, and nothing is measured. For a
  module with the flag the estimate goes from 20 to 20 - 21/4, where 21/4 is
  \<^verbatim>\<open>self.model_size()\<close>, the sum of the whole size cache, and the cached size of no module.
\<close>

theorem post_forward_skips_unflagged:
  "post_forward example_externals example_hook resident_module example_state
     = Return (resident_module, None, example_state)
   \<and> device resident_module \<noteq> devices_cpu
   \<and> fst (torch_gc example_externals (events example_state)) / gpu_memory example_state
       > diffusers_offload_min_gpu_memory example_state
   \<and> post_forward example_externals example_hook flagged_module example_state
     = Return (flagged_module\<lparr>device := devices_cpu\<rparr>, Some (20 - 21 / 4),
               emit To_cpu (emit (Torch_gc False None) example_state))
   \<and> offload_map example_hook = [(''unet'', 5), (''text_encoder'', 1 / 4)]"
  by (simp add: post_forward_def resident_module_def flagged_module_def example_module_def
      example_externals_def example_hook_def model_size_def
      example_state_def devices_cpu_def debug_def emit_def Let_def)

text \<open>
  C2, amended: the eviction hook acts on a module that carries the flag \<^verbatim>\<open>offload_post\<close>
  and is not on the host. For such a module, if the occupancy fraction is above the low
  watermark (and the move succeeds), the module is moved to the host; otherwise residency
  and estimate stay as they are. For every other module the hook does nothing at all:
  nothing is measured and the state is unchanged. What is subtracted from the estimate
  when the module is moved is not part of this statement.
\<close>

theorem post_forward_eviction:
  assumes "gpu_memory s \<noteq> 0" and "module_to_cpu ext m = None"
  shows "\<exists>u s'. post_forward ext h m s
           = Return (if offload_post m \<and> device m \<noteq> devices_cpu
                        \<and> fst (torch_gc ext (events s)) / gpu_memory s
                            > diffusers_offload_min_gpu_memory s
                     then m\<lparr>device := devices_cpu\<rparr> else m, u, s')
         \<and> (offload_post m \<and> device m \<noteq> devices_cpu
              \<and> \<not> fst (torch_gc ext (events s)) / gpu_memory s
                            > diffusers_offload_min_gpu_memory s
             \<longrightarrow> u = Some (fst (torch_gc ext (events s))))
         \<and> (\<not> (offload_post m \<and> device m \<noteq> devices_cpu) \<longrightarrow> u = None \<and> s' = s)"
  using assms by (simp add: post_forward_def Let_def)

theorem post_forward_eviction_witness:
  "gpu_memory example_state \<noteq> 0
   \<and> module_to_cpu example_externals flagged_module = None
   \<and> offload_post flagged_module \<and> device flagged_module \<noteq> devices_cpu
   \<and> fst (torch_gc example_externals (events example_state)) / gpu_memory example_state
       > diffusers_offload_min_gpu_memory example_state
   \<and> (\<exists>u s'. post_forward example_externals example_hook flagged_module example_state
        = Return (flagged_module\<lparr>device := devices_cpu\<rparr>, u, s'))
   \<and> \<not> fst (torch_gc idle_externals (events example_state)) / gpu_memory example_state
       > diffusers_offload_min_gpu_memory example_state
   \<and> (\<exists>s'. post_forward idle_externals example_hook flagged_module example_state
        = Return (flagged_module, Some 2, s'))
   \<and> \<not> offload_post resident_module
   \<and> post_forward example_externals example_hook resident_module example_state
        = Return (resident_module, None, example_state)"
  using post_forward_eviction [of example_state example_externals flagged_module example_hook]
    post_forward_eviction [of example_state idle_externals flagged_module example_hook]
    post_forward_eviction [of example_state example_externals resident_module example_hook]
  by (auto simp add: flagged_module_def resident_module_def example_module_def
      example_externals_def idle_externals_def example_state_def devices_cpu_def)

subsection \<open>Watermarks at construction\<close>

text \<open>
  C4, as stated: every correction is logged as a warning and afterwards both watermarks
  lie in (0,1]. This fails for a high watermark of 1.5 and a low watermark of 0: the
  constructor resets the high watermark to 0.75 without a warning, and the low watermark
  stays 0. It fails for a low watermark of 1.5 as well: the option is reset to 0.2, but the
  attribute \<^verbatim>\<open>min_watermark\<close> of the manager, read before \<^verbatim>\<open>validate\<close> runs, stays 1.5.
  Likewise for a high watermark of 0.05: the option is reset to 0.7, but the manager keeps
  0.05 and the accelerator budget computed from it.
\<close>

theorem OffloadHook_init_silent_reset:
  "diffusers_offload_max_gpu_memory invalid_state = 3 / 2
   \<and> diffusers_offload_min_gpu_memory invalid_state = 0
   \<and> diffusers_offload_max_gpu_memory (snd (OffloadHook_init ''model'' invalid_state)) = 3 / 4
   \<and> diffusers_offload_min_gpu_memory (snd (OffloadHook_init ''model'' invalid_state)) = 0
   \<and> filter is_warning (events (snd (OffloadHook_init ''model'' invalid_state))) = []
   \<and> diffusers_offload_min_gpu_memory low_invalid_state = 3 / 2
   \<and> diffusers_offload_min_gpu_memory (snd (OffloadHook_init ''model'' low_invalid_state)) = 1 / 5
   \<and> min_watermark (fst (OffloadHook_init ''model'' low_invalid_state)) = 3 / 2
   \<and> diffusers_offload_max_gpu_memory high_invalid_state = 1 / 20
   \<and> diffusers_offload_max_gpu_memory (snd (OffloadHook_init ''model'' high_invalid_state)) = 7 / 10
   \<and> max_watermark (fst (OffloadHook_init ''model'' high_invalid_state)) = 1 / 20
   \<and> gpu (fst (OffloadHook_init ''model'' high_invalid_state)) = 1288490188"
  by (simp add: OffloadHook_init_def validate_def invalid_state_def low_invalid_state_def
      high_invalid_state_def example_state_def py_int_def floor_eq_iff
      emit_def Let_def)

text \<open>
  C4, amended, for the options \<^verbatim>\<open>shared.opts\<close> in balanced mode (the constructor is a
  total function: it never raises). The high watermark becomes 0.75 when it was above 1,
  with no warning, and 0.7 when it was below 0.1, with a warning; else it is kept. The low
  watermark becomes 0.2 when it was below 0 or above 1, with a warning, and is then lowered
  to the high watermark when above it, with a warning; else it is kept, so a low watermark
  of 0 stays 0. A last warning is logged when the high watermark times the accelerator
  total is below 4 GB. Nothing else is logged but the line of the constructor. Afterwards
  the low watermark is in [0,1], the high watermark in [0.1,1], and low is at most high.
\<close>

theorem OffloadHook_init_validates_options:
  assumes "diffusers_offload_mode s = ''balanced''"
  shows "diffusers_offload_max_gpu_memory (snd (OffloadHook_init name s))
           = (if 1 < diffusers_offload_max_gpu_memory s then 3 / 4
              else if diffusers_offload_max_gpu_memory s < 1 / 10 then 7 / 10
              else diffusers_offload_max_gpu_memory s)
      \<and> diffusers_offload_min_gpu_memory (snd (OffloadHook_init name s))
           = min (if diffusers_offload_min_gpu_memory s < 0 \<or> 1 < diffusers_offload_min_gpu_memory s
                  then 1 / 5 else diffusers_offload_min_gpu_memory s)
                 (diffusers_offload_max_gpu_memory (snd (OffloadHook_init name s)))
      \<and> events (snd (OffloadHook_init name s))
           = events s @ [Info_init]
             @ (if diffusers_offload_min_gpu_memory s < 0 \<or> 1 < diffusers_offload_min_gpu_memory s
                then [Warn_low_invalid] else [])
             @ (if diffusers_offload_max_gpu_memory s < 1 / 10 then [Warn_high_invalid] else [])
             @ (if diffusers_offload_max_gpu_memory (snd (OffloadHook_init name s))
                     < (if diffusers_offload_min_gpu_memory s < 0
                           \<or> 1 < diffusers_offload_min_gpu_memory s
                        then 1 / 5 else diffusers_offload_min_gpu_memory s)
                then [Warn_low_reset] else [])
             @ (if diffusers_offload_max_gpu_memory (snd (OffloadHook_init name s)) * gpu_memory s < 4
                then [Warn_low_memory] else [])
      \<and> 0 \<le> diffusers_offload_min_gpu_memory (snd (OffloadHook_init name s))
      \<and> diffusers_offload_min_gpu_memory (snd (OffloadHook_init name s))
          \<le> diffusers_offload_max_gpu_memory (snd (OffloadHook_init name s))
      \<and> 1 / 10 \<le> diffusers_offload_max_gpu_memory (snd (OffloadHook_init name s))
      \<and> diffusers_offload_max_gpu_memory (snd (OffloadHook_init name s)) \<le> 1"
proof -
  define s2 where "s2 = emit Info_init
     ((if diffusers_offload_max_gpu_memory s > 1
       then s\<lparr>diffusers_offload_max_gpu_memory := 75 / 100\<rparr> else s)
      \<lparr>diffusers_offload_max_cpu_memory :=
         (if diffusers_offload_max_cpu_memory s > 1 then 75 / 100
          else diffusers_offload_max_cpu_memory s)\<rparr>)"
  define lo where "lo = (if diffusers_offload_min_gpu_memory s < 0
                            \<or> 1 < diffusers_offload_min_gpu_memory s
                         then 1 / 5 else diffusers_offload_min_gpu_memory s)"
  define hi where "hi = (if 1 < diffusers_offload_max_gpu_memory s then 3 / 4
                         else if diffusers_offload_max_gpu_memory s < 1 / 10 then 7 / 10
                         else diffusers_offload_max_gpu_memory s)"
  have init: "snd (OffloadHook_init name s) = validate s2"
    by (simp add: OffloadHook_init_def s2_def Let_def emit_def)
  have mode2: "diffusers_offload_mode s2 = ''balanced''"
    using assms by (simp add: s2_def emit_def)
  have min2: "diffusers_offload_min_gpu_memory s2 = diffusers_offload_min_gpu_memory s"
    by (simp add: s2_def emit_def)
  have max2: "diffusers_offload_max_gpu_memory s2 =
       (if diffusers_offload_max_gpu_memory s > 1 then 3 / 4
        else diffusers_offload_max_gpu_memory s)"
    by (simp add: s2_def emit_def)
  have ev2: "events s2 = events s @ [Info_init]"
    by (simp add: s2_def emit_def)
  have gm2: "gpu_memory s2 = gpu_memory s"
    by (simp add: s2_def emit_def)
  have hi2: "(if diffusers_offload_max_gpu_memory s2 < 1 / 10 \<or> 1 < diffusers_offload_max_gpu_memory s2
        then 7 / 10 else diffusers_offload_max_gpu_memory s2) = hi"
    by (simp add: max2 hi_def)
  have hi_inv: "diffusers_offload_max_gpu_memory s2 < 1 / 10 \<or> 1 < diffusers_offload_max_gpu_memory s2
      \<longleftrightarrow> diffusers_offload_max_gpu_memory s < 1 / 10"
    by (simp add: max2)
  have a: "diffusers_offload_max_gpu_memory (validate s2) = hi"
    using validate_max [OF mode2] hi2 by simp
  have b: "diffusers_offload_min_gpu_memory (validate s2) = min lo hi"
    using validate_min [OF mode2] hi2 by (simp add: min2 lo_def)
  have hi3: "hi = (if diffusers_offload_max_gpu_memory s2 < 1 / 10
                       \<or> 1 < diffusers_offload_max_gpu_memory s2
                    then 7 / 10 else diffusers_offload_max_gpu_memory s2)"
    using hi2 by simp
  have lo3: "lo = (if diffusers_offload_min_gpu_memory s2 < 0
                       \<or> 1 < diffusers_offload_min_gpu_memory s2
                    then 1 / 5 else diffusers_offload_min_gpu_memory s2)"
    by (simp add: min2 lo_def)
  have c: "events (validate s2) = (events s @ [Info_init])
       @ (if diffusers_offload_min_gpu_memory s < 0 \<or> 1 < diffusers_offload_min_gpu_memory s
          then [Warn_low_invalid] else [])
       @ (if diffusers_offload_max_gpu_memory s < 1 / 10 then [Warn_high_invalid] else [])
       @ (if hi < lo then [Warn_low_reset] else [])
       @ (if hi * gpu_memory s < 4 then [Warn_low_memory] else [])"
    using validate_events_exact [OF mode2 lo3 hi3] unfolding hi_inv min2 ev2 gm2 .
  have lo_b: "0 \<le> lo" "lo \<le> 1" by (simp_all add: lo_def)
  have hi_b: "1 / 10 \<le> hi" "hi \<le> 1" by (simp_all add: hi_def)
  have d: "0 \<le> min lo hi" "min lo hi \<le> hi"
    using lo_b hi_b by simp_all
  show ?thesis
    unfolding init a b c lo_def [symmetric]
    using d hi_b by (simp add: hi_def)
qed

theorem OffloadHook_init_validates_options_witness:
  "diffusers_offload_mode low_invalid_state = ''balanced''
   \<and> diffusers_offload_min_gpu_memory low_invalid_state = 3 / 2
   \<and> diffusers_offload_min_gpu_memory (snd (OffloadHook_init ''model'' low_invalid_state)) = 1 / 5
   \<and> events (snd (OffloadHook_init ''model'' low_invalid_state)) = [Info_init, Warn_low_invalid]
   \<and> diffusers_offload_mode invalid_state = ''balanced''
   \<and> diffusers_offload_min_gpu_memory (snd (OffloadHook_init ''model'' invalid_state)) = 0
   \<and> diffusers_offload_max_gpu_memory (snd (OffloadHook_init ''model'' invalid_state)) = 3 / 4
   \<and> events (snd (OffloadHook_init ''model'' invalid_state)) = [Info_init]"
  using OffloadHook_init_validates_options [of low_invalid_state "''model''"]
    OffloadHook_init_validates_options [of invalid_state "''model''"]
  by (simp add: low_invalid_state_def invalid_state_def example_state_def)

subsection \<open>Device maps\<close>

text \<open>
  C5: for a submodule whose total size is at most the accelerator budget the device-map
  builder returns null. The builder is the one modelled from the spec; with it in the place
  of the library call, the placement hook stores no map for such a module and dispatches
  nothing.
\<close>

theorem build_map_null_when_fits:
  assumes "parameters m = Inr ps" and "total_bytes ps \<le> gpu h"
    and "\<not> same_device (device m) (devices_device s)"
    and "balanced_offload_device_map m = None"
    and "devices_backend s \<noteq> ''directml''"
  shows "build_map m \<lparr>mm_index = (case dev_index (devices_device s) of None \<Rightarrow> 0 | Some i \<Rightarrow> i),
                       mm_gpu = gpu h, mm_cpu = cpu h\<rparr> = Inr None
     \<and> pre_forward (ext\<lparr>infer_auto_device_map := build_map\<rparr>) h m s
         = Return (m\<lparr>execution_device := Some (devices_device s),
                     balanced_offload_device_map := None,
                     balanced_offload_max_memory :=
                       Some \<lparr>mm_index = (case dev_index (devices_device s) of
                                           None \<Rightarrow> 0 | Some i \<Rightarrow> i),
                             mm_gpu = gpu h, mm_cpu = cpu h\<rparr>\<rparr>,
                   emit Infer_auto_device_map s)"
  using assms by (simp add: build_map_def pre_forward_def Let_def)

theorem build_map_null_when_fits_witness:
  "parameters example_module = Inr [(1024, 2), (256, 4)]
   \<and> total_bytes [(1024, 2), (256, 4)] \<le> gpu example_hook
   \<and> \<not> same_device (device example_module) (devices_device example_state)
   \<and> balanced_offload_device_map example_module = None
   \<and> devices_backend example_state \<noteq> ''directml''
   \<and> build_map example_module
        \<lparr>mm_index = 0, mm_gpu = gpu example_hook, mm_cpu = cpu example_hook\<rparr> = Inr None"
  using build_map_null_when_fits [of example_module "[(1024, 2), (256, 4)]" example_hook
          example_state example_externals]
  by (simp add: example_module_def example_hook_def example_state_def same_device_def
      total_bytes_def)

text \<open>
  C6, as stated: the stored device map is reused if and only if the pair of bounds it was
  built for equals the manager's current budgets. This fails when the pair is equal and the
  device index is not: \<^verbatim>\<open>max_memory\<close> is the dict
  \<^verbatim>\<open>{device_index: self.gpu, "cpu": self.cpu}\<close>, the stored dict has the key 1 and the
  current one the key 0, so the map is inferred again and replaced.
\<close>

theorem pre_forward_rebuilds_on_index_change:
  "balanced_offload_device_map moved_index_module = Some [([], Dev_index 1)]
   \<and> map_option mm_gpu (balanced_offload_max_memory moved_index_module) = Some (gpu example_hook)
   \<and> map_option mm_cpu (balanced_offload_max_memory moved_index_module) = Some (cpu example_hook)
   \<and> pre_forward example_externals example_hook moved_index_module example_state
      = Return (moved_index_module
                  \<lparr>device := Device ''cuda'' (Some 0),
                   execution_device := Some (Device ''cuda'' None),
                   balanced_offload_device_map := Some [([], Dev_index 0)],
                   balanced_offload_max_memory :=
                     Some \<lparr>mm_index = 0, mm_gpu = 18038862643, mm_cpu = 51539607552\<rparr>\<rparr>,
                emit (Dispatch_model ''cache/T5EncoderModel'')
                  (emit Infer_auto_device_map example_state))"
  by (simp add: pre_forward_def moved_index_module_def example_module_def example_externals_def
      example_hook_def example_state_def same_device_def path_join_def suffix_to_prefix
      emit_def Let_def)

text \<open>
  C6, amended: at a placement decision (the module is not on the execution device) the
  stored device map is reused, and \<^verbatim>\<open>infer_auto_device_map\<close> is not called, if and only if
  a map is stored and the stored \<^verbatim>\<open>max_memory\<close> (the device index with the two bounds)
  equals the one of the manager's current budgets. Otherwise a new map is inferred. When
  the library calls succeed the hook returns, and the module then stores the map in use
  (rewritten on DirectML) and the current \<^verbatim>\<open>max_memory\<close>.
\<close>

theorem pre_forward_device_map_reuse:
  fixes ext :: externals and h :: hook and m :: module and s :: state
  defines "mm \<equiv> \<lparr>mm_index = (case dev_index (devices_device s) of None \<Rightarrow> 0 | Some i \<Rightarrow> i),
                    mm_gpu = gpu h, mm_cpu = cpu h\<rparr>"
    and "dir \<equiv> (case offload_dir m of
                  Some d \<Rightarrow> d
                | None \<Rightarrow> path_join (accelerate_offload_path s) (cls_name m))"
    and "rw \<equiv> (if devices_backend s = ''directml''
                then directml_rewrite (dev_type (devices_device s)) else id)"
  assumes "\<not> same_device (device m) (devices_device s)"
    and "infer_auto_device_map ext m mm = Inr (Some dm_new)"
    and "\<And>x dm. dispatch_model ext x dm dir = Inr (disp x dm)"
  shows "pre_forward ext h m s =
     (case balanced_offload_device_map m of
        Some dm_old \<Rightarrow>
          if balanced_offload_max_memory m = Some mm
          then Return ((disp (m\<lparr>balanced_offload_device_map := Some (rw dm_old)\<rparr>) (rw dm_old))
                         \<lparr>execution_device := Some (devices_device s),
                          balanced_offload_device_map := Some (rw dm_old),
                          balanced_offload_max_memory := Some mm\<rparr>,
                       emit (Dispatch_model dir) s)
          else Return ((disp m (rw dm_new))
                         \<lparr>execution_device := Some (devices_device s),
                          balanced_offload_device_map := Some (rw dm_new),
                          balanced_offload_max_memory := Some mm\<rparr>,
                       emit (Dispatch_model dir) (emit Infer_auto_device_map s))
      | None \<Rightarrow>
          Return ((disp m (rw dm_new))
                    \<lparr>execution_device := Some (devices_device s),
                     balanced_offload_device_map := Some (rw dm_new),
                     balanced_offload_max_memory := Some mm\<rparr>,
                  emit (Dispatch_model dir) (emit Infer_auto_device_map s)))"
proof -
  have dir_eq: "\<And>e. (case offload_dir m of
                     Some d \<Rightarrow> d
                   | None \<Rightarrow> path_join (accelerate_offload_path (emit e s)) (cls_name m)) = dir"
    by (simp add: dir_def split: option.splits)
  show ?thesis
  proof (cases "balanced_offload_device_map m")
    case None
    then show ?thesis using assms(4-6)
      by (simp add: pre_forward_def Let_def mm_def [symmetric] dir_eq dir_def [symmetric] rw_def)
  next
    case (Some dm_old)
    show ?thesis
    proof (cases "balanced_offload_max_memory m = Some mm")
      case True
      then have "Some mm = balanced_offload_max_memory m" by simp
      then show ?thesis using Some assms(4-6) True
        by (simp add: pre_forward_def Let_def mm_def [symmetric] dir_eq dir_def [symmetric] rw_def)
    next
      case False
      then have "Some mm \<noteq> balanced_offload_max_memory m" by auto
      then show ?thesis using Some assms(4-6) False
        by (simp add: pre_forward_def Let_def mm_def [symmetric] dir_eq dir_def [symmetric] rw_def)
    qed
  qed
qed

theorem pre_forward_device_map_reuse_witness:
  "\<not> same_device (device cached_module) (devices_device example_state)
   \<and> infer_auto_device_map example_externals cached_module
        \<lparr>mm_index = 0, mm_gpu = gpu example_hook, mm_cpu = cpu example_hook\<rparr>
        = Inr (Some [([], Dev_index 0)])
   \<and> pre_forward example_externals example_hook cached_module example_state
      = Return (cached_module\<lparr>device := Device ''cuda'' (Some 0),
                  execution_device := Some (Device ''cuda'' None)\<rparr>,
                emit (Dispatch_model ''cache/T5EncoderModel'') example_state)
   \<and> \<not> same_device (device stale_module) (devices_device example_state)
   \<and> pre_forward example_externals example_hook stale_module example_state
      = Return (stale_module
                  \<lparr>device := Device ''cuda'' (Some 0),
                   execution_device := Some (Device ''cuda'' None),
                   balanced_offload_device_map := Some [([], Dev_index 0)],
                   balanced_offload_max_memory :=
                     Some \<lparr>mm_index = 0, mm_gpu = 18038862643, mm_cpu = 51539607552\<rparr>\<rparr>,
                emit (Dispatch_model ''cache/T5EncoderModel'')
                  (emit Infer_auto_device_map example_state))
   \<and> \<not> same_device (device example_module) (devices_device example_state)
   \<and> pre_forward example_externals example_hook example_module example_state
      = Return (example_module
                  \<lparr>device := Device ''cuda'' (Some 0),
                   execution_device := Some (Device ''cuda'' None),
                   balanced_offload_device_map := Some [([], Dev_index 0)],
                   balanced_offload_max_memory :=
                     Some \<lparr>mm_index = 0, mm_gpu = 18038862643, mm_cpu = 51539607552\<rparr>\<rparr>,
                emit (Dispatch_model ''cache/T5EncoderModel'')
                  (emit Infer_auto_device_map example_state))"
  using
    pre_forward_device_map_reuse [where m = cached_module and s = example_state
      and ext = example_externals and h = example_hook and dm_new = "[([], Dev_index 0)]"
      and disp = "\<lambda>x dm. x\<lparr>device := Device ''cuda'' (Some 0)\<rparr>"]
    pre_forward_device_map_reuse [where m = stale_module and s = example_state
      and ext = example_externals and h = example_hook and dm_new = "[([], Dev_index 0)]"
      and disp = "\<lambda>x dm. x\<lparr>device := Device ''cuda'' (Some 0)\<rparr>"]
    pre_forward_device_map_reuse [where m = example_module and s = example_state
      and ext = example_externals and h = example_hook and dm_new = "[([], Dev_index 0)]"
      and disp = "\<lambda>x dm. x\<lparr>device := Device ''cuda'' (Some 0)\<rparr>"]
  by (simp add: cached_module_def stale_module_def example_module_def example_externals_def
      example_hook_def example_state_def same_device_def path_join_def suffix_to_prefix
      emit_def)

subsection \<open>The orchestrator\<close>

lemma logs_after_refl [simp]: "logs_after s s"
  by (auto simp add: logs_after_def intro: exI [of _ "[]"])

lemma logs_after_trans: "logs_after s s1 \<Longrightarrow> logs_after s1 s2 \<Longrightarrow> logs_after s s2"
  by (auto simp add: logs_after_def)

lemma logs_after_emit: "e \<noteq> Info_init \<Longrightarrow> logs_after s s1 \<Longrightarrow> logs_after s (emit e s1)"
  by (auto simp add: logs_after_def emit_def)

lemma logs_after_emit0: "e \<noteq> Info_init \<Longrightarrow> logs_after s (emit e s)"
  by (simp add: logs_after_emit)

lemma logs_after_fields:
  assumes "logs_after s s'"
  shows "devices_device s' = devices_device s"
    and "gpu_memory s' = gpu_memory s"
    and "diffusers_offload_min_gpu_memory s' = diffusers_offload_min_gpu_memory s"
    and "diffusers_offload_max_gpu_memory s' = diffusers_offload_max_gpu_memory s"
    and "diffusers_offload_max_cpu_memory s' = diffusers_offload_max_cpu_memory s"
    and "count_list (events s') Info_init = count_list (events s) Info_init"
  using assms by (auto simp add: logs_after_def)

lemma except_display_logs:
  "except_display e n s = r \<Longrightarrow> logs_after s (payload r)"
  by (auto simp add: except_display_def logs_after_emit0 split: if_splits option.splits)

lemma except_handler_logs:
  "logs_after s (payload (except_handler e n s))"
  by (auto simp add: except_handler_def except_display_def
      intro!: logs_after_emit split: if_splits option.splits)

lemma offload_try_logs:
  "logs_after s (snd (snd (payload (offload_try ext cached h n sz m u s))))"
  by (auto simp add: offload_try_def Let_def intro!: logs_after_emit split: option.splits)

lemma attach_execution_device [simp]:
  "execution_device (attach cn h n m0 m s) = Some (devices_device s)"
  by (simp add: attach_def Let_def add_hook_to_module_def split: option.splits)

lemma offload_module_logs:
  "logs_after s (snd (snd (payload (offload_module ext cn cached h n sz m u s))))"
proof (cases "offload_try ext cached h n sz (remove_hook_from_module m) u s")
  case (Return r)
  with offload_try_logs [of s ext cached h n sz "remove_hook_from_module m" u]
  show ?thesis by (auto simp add: offload_module_def Let_def split: prod.splits)
next
  case (Raise e r)
  obtain m2 u2 s2 where r: "r = (m2, u2, s2)" by (cases r) auto
  from Raise r offload_try_logs [of s ext cached h n sz "remove_hook_from_module m" u]
  have l1: "logs_after s s2" by simp
  have l2: "logs_after s2 (payload (except_handler e (Some n) s2))"
    by (rule except_handler_logs)
  show ?thesis using Raise r logs_after_trans [OF l1 l2]
    by (auto simp add: offload_module_def Let_def split: result.splits)
qed

lemma offload_module_execution_device:
  assumes "offload_module ext cn cached h n sz m u s = Return (m', u', s')"
  shows "execution_device m' = Some (devices_device s)"
proof -
  have l: "logs_after s s'"
    using offload_module_logs [of s ext cn cached h n sz m u] assms by simp
  have "\<exists>m2 s2. m' = attach cn h n m m2 s2 \<and> s' = s2"
    using assms by (auto simp add: offload_module_def Let_def split: if_splits result.splits)
  then show ?thesis using logs_after_fields(1) [OF l] by auto
qed

lemma getattr_update [simp]:
  "getattr (AList.update k v p) n = (if n = k then v else getattr p n)"
  by (simp add: getattr_def update_conv')

lemma offload_loop_logs:
  "logs_after s (snd (payload (offload_loop ext cn cached h mods u p s)))"
proof (induction ext cn cached h mods u p s rule: offload_loop.induct)
  case (1 ext cn cached h u p s)
  show ?case by simp
next
  case (2 ext cn cached h n sz rest u p s)
  show ?case
  proof (cases "getattr p n")
    case NoneC
    with 2(1) show ?thesis by simp
  next
    case NonModule
    then show ?thesis by simp
  next
    case (Module m)
    show ?thesis
    proof (cases "offload_module ext cn cached h n sz m u s")
      case (Return r)
      obtain m1 u1 s1 where r: "r = (m1, u1, s1)" by (cases r) auto
      have l1: "logs_after s s1"
        using offload_module_logs [of s ext cn cached h n sz m u] Return r by simp
      have l2: "logs_after s1 (snd (payload (offload_loop ext cn cached h rest u1
                  (AList.update n (Module m1) p) s1)))"
        using 2(2) [OF Module Return [unfolded r] refl refl] .
      show ?thesis using Module Return r logs_after_trans [OF l1 l2] by simp
    next
      case (Raise e r)
      obtain m1 u1 s1 where r: "r = (m1, u1, s1)" by (cases r) auto
      have l1: "logs_after s s1"
        using offload_module_logs [of s ext cn cached h n sz m u] Raise r by simp
      show ?thesis using Module Raise r l1 by simp
    qed
  qed
qed

lemma offload_loop_execution_device:
  assumes "offload_loop ext cn cached h mods u p s = Return (p', s')"
    and "getattr p name = Module m0"
    and "name \<in> fst ` set mods \<or> execution_device m0 = Some (devices_device s)"
  shows "\<exists>m1. getattr p' name = Module m1 \<and> execution_device m1 = Some (devices_device s)"
  using assms
proof (induction ext cn cached h mods u p s arbitrary: m0 rule: offload_loop.induct)
  case (1 ext cn cached h u p s)
  then show ?case by auto
next
  case (2 ext cn cached h n sz rest u p s)
  show ?case
  proof (cases "getattr p n")
    case NoneC
    with 2(3) have run: "offload_loop ext cn cached h rest u p s = Return (p', s')" by simp
    from NoneC 2(4) have "name \<noteq> n" by auto
    with 2(5) have "name \<in> fst ` set rest \<or> execution_device m0 = Some (devices_device s)"
      by auto
    from 2(1) [OF NoneC run 2(4) this] show ?thesis .
  next
    case NonModule
    with 2(3) show ?thesis by simp
  next
    case (Module m)
    show ?thesis
    proof (cases "offload_module ext cn cached h n sz m u s")
      case (Raise e r)
      with Module 2(3) show ?thesis by (auto split: prod.splits)
    next
      case (Return r)
      obtain m1 u1 s1 where r: "r = (m1, u1, s1)" by (cases r) auto
      have l1: "logs_after s s1"
        using offload_module_logs [of s ext cn cached h n sz m u] Return r by simp
      have dev: "devices_device s1 = devices_device s" using logs_after_fields(1) [OF l1] .
      have ex: "execution_device m1 = Some (devices_device s)"
        using offload_module_execution_device Return r by blast
      have run: "offload_loop ext cn cached h rest u1 (AList.update n (Module m1) p) s1
                   = Return (p', s')"
        using 2(3) Module Return r by simp
      show ?thesis
      proof (cases "name = n")
        case True
        have g: "getattr (AList.update n (Module m1) p) name = Module m1" using True by simp
        have "name \<in> fst ` set rest \<or> execution_device m1 = Some (devices_device s1)"
          using ex dev by simp
        from 2(2) [OF Module Return [unfolded r] refl refl run g this] dev
        show ?thesis by simp
      next
        case False
        have g: "getattr (AList.update n (Module m1) p) name = Module m0"
          using False 2(4) by simp
        have "name \<in> fst ` set rest \<or> execution_device m0 = Some (devices_device s1)"
          using 2(5) False dev by auto
        from 2(2) [OF Module Return [unfolded r] refl refl run g this] dev
        show ?thesis by simp
      qed
    qed
  qed
qed


lemma same_config_refl [simp]: "same_config h h"
  by (simp add: same_config_def)

lemma same_config_trans: "same_config h h1 \<Longrightarrow> same_config h1 h2 \<Longrightarrow> same_config h h2"
  unfolding same_config_def by (metis hook.update_convs(7) hook.update_convs(8) hook.surjective hook.select_convs)

lemma same_config_update [simp]:
  "same_config h (h\<lparr>offload_map := a\<rparr>)"
  "same_config h (h\<lparr>offload_map := a, param_map := b\<rparr>)"
  by (simp_all add: same_config_def)

lemma same_config_fields:
  assumes "same_config h h'"
  shows "cpu h' = cpu h" "gpu h' = gpu h" "cpu_watermark h' = cpu_watermark h"
    "min_watermark h' = min_watermark h" "max_watermark h' = max_watermark h"
    "checkpoint_name h' = checkpoint_name h"
  using assms unfolding same_config_def
  by (metis hook.select_convs hook.surjective hook.update_convs)+

lemma keys_update: "fst ` set (AList.update k v al) = insert k (fst ` set al)"
  by (induction al) auto

lemma get_pipe_modules_loop_inv:
  "logs_after s (snd (snd (payload (get_pipe_modules_loop p names pn mods h s))))
   \<and> same_config h (fst (snd (payload (get_pipe_modules_loop p names pn mods h s))))"
proof (induction p names pn mods h s rule: get_pipe_modules_loop.induct)
  case (1 p pn mods h s)
  show ?case by simp
next
  case (2 p n names pn mods h s)
  show ?case
  proof (cases "map_of (offload_map h) n")
    case (Some sz)
    with "2.IH"(5) show ?thesis by simp
  next
    case None
    show ?thesis
    proof (cases "getattr p n")
      case NoneC
      with None "2.IH"(1) show ?thesis by simp
    next
      case NonModule
      with None "2.IH"(2) show ?thesis by simp
    next
      case (Module m)
      show ?thesis
      proof (cases "parameters m")
        case (Inr ps)
        from "2.IH"(4) [OF None Module Inr]
        show ?thesis using None Module Inr
          by (auto intro: same_config_trans [OF same_config_update(2)])
      next
        case (Inl e)
        show ?thesis
        proof (cases pn)
          case pnone: None
          show ?thesis using None Module Inl pnone by (simp add: logs_after_emit0)
        next
          case (Some stale)
          from "2.IH"(3) [OF None Module Inl Some]
          show ?thesis using None Module Inl Some
            by (auto intro: same_config_trans [OF same_config_update(2)]
                logs_after_trans [OF logs_after_emit0])
        qed
      qed
    qed
  qed
qed

lemma get_pipe_modules_loop_names:
  assumes "get_pipe_modules_loop p names pn mods h s = Return (mods', h', s')"
  shows "fst ` set mods \<subseteq> fst ` set mods'
     \<and> (\<forall>n \<in> set names. (\<exists>m. getattr p n = Module m) \<longrightarrow> n \<in> fst ` set mods')"
  using assms
proof (induction p names pn mods h s rule: get_pipe_modules_loop.induct)
  case (1 p pn mods h s)
  then show ?case by simp
next
  case (2 p n names pn mods h s)
  show ?case
  proof (cases "map_of (offload_map h) n")
    case (Some sz)
    with "2.IH"(5) [OF Some] "2.prems" show ?thesis by (auto simp add: keys_update)
  next
    case None
    show ?thesis
    proof (cases "getattr p n")
      case NoneC
      with None "2.IH"(1) "2.prems" show ?thesis by auto
    next
      case NonModule
      with None "2.IH"(2) "2.prems" show ?thesis by auto
    next
      case (Module m)
      show ?thesis
      proof (cases "parameters m")
        case (Inr ps)
        with None Module "2.IH"(4) [OF None Module Inr] "2.prems"
        show ?thesis by (auto simp add: keys_update)
      next
        case (Inl e)
        show ?thesis
        proof (cases pn)
          case pnone: None
          with None Module Inl "2.prems" show ?thesis by simp
        next
          case (Some stale)
          with None Module Inl "2.IH"(3) [OF None Module Inl Some] "2.prems"
          show ?thesis by (auto simp add: keys_update)
        qed
      qed
    qed
  qed
qed

lemma get_pipe_modules_inv:
  "logs_after s (snd (snd (payload (get_pipe_modules exclude p h s))))
   \<and> same_config h (fst (snd (payload (get_pipe_modules exclude p h s))))"
  using get_pipe_modules_loop_inv
    [of s p "[m \<leftarrow> map fst p. m \<notin> set exclude \<and> \<not> startswith m ''_'']" None "[]" h]
  by (auto simp add: get_pipe_modules_def split: result.splits)

lemma get_pipe_modules_names:
  assumes "get_pipe_modules exclude p h s = Return (mods, h', s')"
    and "name \<in> set (map fst p)" and "name \<notin> set exclude" and "\<not> startswith name ''_''"
    and "getattr p name = Module m"
  shows "name \<in> fst ` set mods"
proof -
  from assms(1) obtain mods0 where
    l: "get_pipe_modules_loop p [m \<leftarrow> map fst p. m \<notin> set exclude \<and> \<not> startswith m ''_'']
          None [] h s = Return (mods0, h', s')"
    and m: "mods = sort_key (\<lambda>x. - snd x) mods0"
    by (auto simp add: get_pipe_modules_def split: result.splits)
  from get_pipe_modules_loop_names [OF l] assms(2-5)
  have "name \<in> fst ` set mods0" by auto
  then show ?thesis using m by simp
qed

lemma apply_to_module_inv:
  "logs_after s (snd (snd (payload (apply_balanced_offload_to_module ext cn cached exclude p h s))))
   \<and> same_config h (fst (snd (payload (apply_balanced_offload_to_module ext cn cached exclude p h s))))"
proof -
  let ?s1 = "emit (Torch_gc False None) s"
  have l0: "logs_after s ?s1" by (simp add: logs_after_emit0)
  show ?thesis
  proof (cases "get_pipe_modules exclude p h ?s1")
    case (Raise e r)
    with get_pipe_modules_inv [of ?s1 exclude p h] l0
    show ?thesis
      by (auto simp add: apply_balanced_offload_to_module_def Let_def
          intro: logs_after_trans split: prod.splits)
  next
    case (Return r)
    obtain mods h1 s2 where r: "r = (mods, h1, s2)" by (cases r) auto
    from Return r get_pipe_modules_inv [of ?s1 exclude p h]
    have l1: "logs_after ?s1 s2" and c: "same_config h h1" by auto
    have l2: "logs_after s2 (snd (payload (offload_loop ext cn cached h1 mods
                (fst (torch_gc ext (events s))) p s2)))"
      by (rule offload_loop_logs)
    show ?thesis
    proof (cases "offload_loop ext cn cached h1 mods (fst (torch_gc ext (events s))) p s2")
      case ret: (Return q)
      with l2 have "logs_after s2 (snd q)" by simp
      with l0 l1 have "logs_after s (emit (Torch_gc True (Some ''offload'')) (snd q))"
        by (auto intro!: logs_after_emit intro: logs_after_trans)
      then show ?thesis using Return r ret c
        by (auto simp add: apply_balanced_offload_to_module_def Let_def split: prod.splits)
    next
      case rai: (Raise e q)
      with l2 have "logs_after s2 (snd q)" by simp
      with l0 l1 have "logs_after s (snd q)"
        by (auto intro: logs_after_trans)
      then show ?thesis using Return r rai c
        by (auto simp add: apply_balanced_offload_to_module_def Let_def split: prod.splits)
    qed
  qed
qed

lemma apply_to_module_execution_device:
  assumes "apply_balanced_offload_to_module ext cn cached exclude p h s = Return (p', h', s')"
    and "name \<in> set (map fst p)" and "name \<notin> set exclude" and "\<not> startswith name ''_''"
    and "getattr p name = Module m0"
  shows "\<exists>m1. getattr p' name = Module m1 \<and> execution_device m1 = Some (devices_device s)"
proof -
  let ?s1 = "emit (Torch_gc False None) s"
  from assms(1) obtain mods s2 s3 where
    g: "get_pipe_modules exclude p h ?s1 = Return (mods, h', s2)"
    and l: "offload_loop ext cn cached h' mods (fst (torch_gc ext (events s))) p s2 = Return (p', s3)"
    by (auto simp add: apply_balanced_offload_to_module_def Let_def split: result.splits prod.splits)
  from get_pipe_modules_inv [of ?s1 exclude p h] g have "logs_after ?s1 s2" by simp
  then have dev: "devices_device s2 = devices_device s"
    using logs_after_fields(1) by fastforce
  have "name \<in> fst ` set mods" using get_pipe_modules_names [OF g assms(2-5)] .
  with offload_loop_execution_device [OF l assms(5)] dev show ?thesis by simp
qed

lemma apply_pass_inv:
  assumes "logs_after s0 (snd (snd (payload r)))" and "same_config h0 (fst (snd (payload r)))"
  shows "logs_after s0 (snd (snd (payload (apply_pass ext cn cached exclude sel upd r))))
       \<and> same_config h0 (fst (snd (payload (apply_pass ext cn cached exclude sel upd r))))"
proof (cases r)
  case (Raise e b)
  with assms show ?thesis by (simp add: apply_pass_def)
next
  case (Return b)
  obtain model h s where b: "b = (model, h, s)" by (cases b) auto
  show ?thesis
  proof (cases "sel model")
    case None
    with assms Return b show ?thesis by (simp add: apply_pass_def)
  next
    case (Some p)
    from apply_to_module_inv [of s ext cn cached exclude p h] assms Return b
    have "logs_after s0 (snd (snd (payload (apply_balanced_offload_to_module ext cn cached exclude p h s))))
       \<and> same_config h0 (fst (snd (payload (apply_balanced_offload_to_module ext cn cached exclude p h s))))"
      by (auto intro: logs_after_trans same_config_trans)
    then show ?thesis using Return b Some
      by (auto simp add: apply_pass_def split: result.splits)
  qed
qed

text \<open>
  When the manager at hand records the checkpoint and the low and high watermarks of the
  current options, the orchestrator reuses it whatever the host watermark option \<open>c\<close> is
  now: the test selects the existing manager, no manager is constructed, and the manager
  in place after the call has the host budget \<open>cpu\<close> (and every other attribute but the two
  caches) of the one before.
\<close>

lemma reuse_when_recorded_matches:
  assumes "diffusers_offload_mode s = ''balanced''"
    and "class_name model \<notin> set balanced_offload_exclude"
    and "offload_hook_instance s = Some hk"
    and "min_watermark hk = diffusers_offload_min_gpu_memory s"
    and "max_watermark hk = diffusers_offload_max_gpu_memory s"
    and "checkpoint_name hk = checkpoint_of model"
  shows "select_hook (checkpoint_of model) (s\<lparr>diffusers_offload_max_cpu_memory := c\<rparr>)
           = (True, hk, s\<lparr>diffusers_offload_max_cpu_memory := c\<rparr>)
     \<and> (\<exists>h1. offload_hook_instance
               (snd (payload (apply_balanced_offload ext (Some model) exclude
                                (s\<lparr>diffusers_offload_max_cpu_memory := c\<rparr>)))) = Some h1
            \<and> cpu h1 = cpu hk \<and> cpu_watermark h1 = cpu_watermark hk \<and> gpu h1 = gpu hk
            \<and> min_watermark h1 = min_watermark hk \<and> max_watermark h1 = max_watermark hk
            \<and> checkpoint_name h1 = checkpoint_name hk)
     \<and> count_list (events (snd (payload (apply_balanced_offload ext (Some model) exclude
                                (s\<lparr>diffusers_offload_max_cpu_memory := c\<rparr>))))) Info_init
         = count_list (events s) Info_init"
proof -
  let ?s = "s\<lparr>diffusers_offload_max_cpu_memory := c\<rparr>"
  let ?cn = "checkpoint_of model"
  have sel: "select_hook ?cn ?s = (True, hk, ?s)"
    using assms by (simp add: select_hook_def)
  have same: "?s\<lparr>offload_hook_instance := Some hk\<rparr> = ?s"
    using assms(3) by simp
  define r where "r =
     apply_pass ext ?cn True exclude decoder_pipe (\<lambda>p m. m\<lparr>decoder_pipe := Some p\<rparr>)
      (apply_pass ext ?cn True exclude prior_pipe (\<lambda>p m. m\<lparr>prior_pipe := Some p\<rparr>)
        (apply_pass ext ?cn True exclude pipe (\<lambda>p m. m\<lparr>pipe := Some p\<rparr>)
          (apply_pass ext ?cn True exclude (\<lambda>m. Some (components m)) (\<lambda>p m. m\<lparr>components := p\<rparr>)
            (Return (model, hk, ?s)))))"
  have inv0: "logs_after ?s (snd (snd (payload (Return (model, hk, ?s)))))
      \<and> same_config hk (fst (snd (payload (Return (model, hk, ?s)))))"
    by simp
  note inv1 = apply_pass_inv [OF conjunct1 [OF inv0] conjunct2 [OF inv0],
      of ext ?cn True exclude "\<lambda>m. Some (components m)" "\<lambda>p m. m\<lparr>components := p\<rparr>"]
  note inv2 = apply_pass_inv [OF conjunct1 [OF inv1] conjunct2 [OF inv1],
      of ext ?cn True exclude pipe "\<lambda>p m. m\<lparr>pipe := Some p\<rparr>"]
  note inv3 = apply_pass_inv [OF conjunct1 [OF inv2] conjunct2 [OF inv2],
      of ext ?cn True exclude prior_pipe "\<lambda>p m. m\<lparr>prior_pipe := Some p\<rparr>"]
  note inv4 = apply_pass_inv [OF conjunct1 [OF inv3] conjunct2 [OF inv3],
      of ext ?cn True exclude decoder_pipe "\<lambda>p m. m\<lparr>decoder_pipe := Some p\<rparr>"]
  have inv: "logs_after ?s (snd (snd (payload r))) \<and> same_config hk (fst (snd (payload r)))"
    unfolding r_def using inv4 .
  have run: "apply_balanced_offload ext (Some model) exclude ?s =
     (case r of
        Raise e (model1, h1, s2) \<Rightarrow> Raise e (Some model1, s2\<lparr>offload_hook_instance := Some h1\<rparr>)
      | Return (model1, h1, s2) \<Rightarrow>
          Return (Some (model1\<lparr>has_accelerate := True\<rparr>),
            (let s3 = (if layerwise_quantization s2 then emit Apply_layerwise s2 else s2)
             in if debug s3 then emit Trace_apply s3 else s3)\<lparr>offload_hook_instance := Some h1\<rparr>))"
    using assms(1,2) sel same
    by (auto simp add: apply_balanced_offload_def r_def Let_def split: result.splits)
  obtain model1 h1 s2 where p: "payload r = (model1, h1, s2)" by (cases "payload r") auto
  from inv p have l: "logs_after ?s s2" and c: "same_config hk h1" by simp_all
  have ev: "count_list (events s2) Info_init = count_list (events s) Info_init"
    using logs_after_fields(6) [OF l] by simp
  show ?thesis
  proof (cases r)
    case (Raise e b)
    with p run have "snd (payload (apply_balanced_offload ext (Some model) exclude ?s))
        = s2\<lparr>offload_hook_instance := Some h1\<rparr>" by simp
    then show ?thesis using sel ev same_config_fields [OF c] by simp
  next
    case (Return b)
    with p run have "snd (payload (apply_balanced_offload ext (Some model) exclude ?s))
        = (let s3 = (if layerwise_quantization s2 then emit Apply_layerwise s2 else s2)
             in if debug s3 then emit Trace_apply s3 else s3)\<lparr>offload_hook_instance := Some h1\<rparr>"
      by simp
    then show ?thesis using sel ev same_config_fields [OF c] by (simp add: Let_def)
  qed
qed

lemma reuse_when_recorded_matches_example:
  "diffusers_offload_mode (example_state\<lparr>offload_hook_instance := Some example_hook\<rparr>) = ''balanced''
   \<and> class_name example_pipeline \<notin> set balanced_offload_exclude
   \<and> min_watermark example_hook = diffusers_offload_min_gpu_memory example_state
   \<and> max_watermark example_hook = diffusers_offload_max_gpu_memory example_state
   \<and> checkpoint_name example_hook = checkpoint_of example_pipeline
   \<and> cpu_watermark example_hook \<noteq> 1 / 2
   \<and> select_hook (checkpoint_of example_pipeline)
        (example_state\<lparr>offload_hook_instance := Some example_hook,
                        diffusers_offload_max_cpu_memory := 1 / 2\<rparr>)
        = (True, example_hook,
           example_state\<lparr>offload_hook_instance := Some example_hook,
                          diffusers_offload_max_cpu_memory := 1 / 2\<rparr>)"
  using reuse_when_recorded_matches [where s = "example_state\<lparr>offload_hook_instance := Some example_hook\<rparr>"
          and model = example_pipeline and hk = example_hook and ext = example_externals
          and exclude = "[]" and c = "1 / 2"]
  by (simp add: example_state_def example_hook_def example_pipeline_def checkpoint_of_def
      balanced_offload_exclude_def)

lemma apply_pass_Return:
  assumes "apply_pass ext cn cached exclude sel upd r = Return x"
  shows "\<exists>y. r = Return y"
  using assms by (cases r) (auto simp add: apply_pass_def)

lemma apply_pass_components:
  assumes "\<And>p m. components (upd p m) = components m"
  shows "components (fst (payload (apply_pass ext cn cached exclude sel upd r)))
           = components (fst (payload r))"
  using assms
  by (auto simp add: apply_pass_def split: result.splits option.splits prod.splits)

lemma select_hook_device:
  "select_hook cn s = (cached, h, s1) \<Longrightarrow> devices_device s1 = devices_device s"
  by (auto simp add: select_hook_def OffloadHook_init_def Let_def
      split: option.splits if_splits)

lemma apply_balanced_offload_execution_device:
  assumes run: "apply_balanced_offload ext (Some model) exclude s = Return (Some model', s')"
    and mode: "diffusers_offload_mode s = ''balanced''"
    and cls: "class_name model \<notin> set balanced_offload_exclude"
    and name: "name \<in> set (map fst (components model))" "name \<notin> set exclude"
      "\<not> startswith name ''_''"
    and comp: "getattr (components model) name = Module m0"
  shows "\<exists>m1. getattr (components model') name = Module m1
            \<and> execution_device m1 = Some (devices_device s)"
proof -
  let ?cn = "checkpoint_of model"
  obtain cached h s1 where sel: "select_hook ?cn s = (cached, h, s1)"
    by (cases "select_hook ?cn s") auto
  let ?s1 = "s1\<lparr>offload_hook_instance := Some h\<rparr>"
  have dev: "devices_device ?s1 = devices_device s"
    using select_hook_device [OF sel] by simp
  define r1 where "r1 = apply_pass ext ?cn cached exclude (\<lambda>m. Some (components m))
       (\<lambda>p m. m\<lparr>components := p\<rparr>) (Return (model, h, ?s1))"
  define r2 where "r2 = apply_pass ext ?cn cached exclude pipe (\<lambda>p m. m\<lparr>pipe := Some p\<rparr>) r1"
  define r3 where "r3 = apply_pass ext ?cn cached exclude prior_pipe
       (\<lambda>p m. m\<lparr>prior_pipe := Some p\<rparr>) r2"
  define r4 where "r4 = apply_pass ext ?cn cached exclude decoder_pipe
       (\<lambda>p m. m\<lparr>decoder_pipe := Some p\<rparr>) r3"
  from run mode cls sel obtain model4 h4 s4 where
    r4: "r4 = Return (model4, h4, s4)" and m': "model' = model4\<lparr>has_accelerate := True\<rparr>"
    by (auto simp add: apply_balanced_offload_def Let_def r4_def r3_def r2_def r1_def
        split: result.splits)
  from r4 obtain y3 where r3: "r3 = Return y3"
    unfolding r4_def using apply_pass_Return by blast
  then obtain y2 where r2: "r2 = Return y2"
    unfolding r3_def using apply_pass_Return by blast
  then obtain y1 where r1: "r1 = Return y1"
    unfolding r2_def using apply_pass_Return by blast
  have c4: "components model4 = components (fst y1)"
  proof -
    have "components (fst (payload r4)) = components (fst (payload r3))"
      unfolding r4_def by (rule apply_pass_components) simp
    also have "\<dots> = components (fst (payload r2))"
      unfolding r3_def by (rule apply_pass_components) simp
    also have "\<dots> = components (fst (payload r1))"
      unfolding r2_def by (rule apply_pass_components) simp
    finally show ?thesis using r4 r1 by simp
  qed
  from r1 obtain p1 h1 s2 where
    pass: "apply_balanced_offload_to_module ext ?cn cached exclude (components model) h ?s1
             = Return (p1, h1, s2)"
    and y1: "components (fst y1) = p1"
    by (auto simp add: r1_def apply_pass_def split: result.splits)
  from apply_to_module_execution_device [OF pass name comp] dev c4 y1 m'
  show ?thesis by simp
qed

text \<open>
  C9: a module that the placement hook has handled (it was not on the execution device,
  and the hook returned), every module that a pass of the orchestrator has processed
  (a named, non-excluded component that is a module, when the pass returned), and so every
  such module of the pipeline when \<^verbatim>\<open>apply_balanced_offload\<close> returned, has its execution
  device set to \<^verbatim>\<open>devices.device\<close>, wherever its weights are.
\<close>

theorem execution_device_is_accelerator:
  "(\<not> same_device (device m) (devices_device s) \<and> pre_forward ext h m s = Return (m', s')
      \<longrightarrow> execution_device m' = Some (devices_device s))
   \<and> (apply_balanced_offload_to_module ext cn cached exclude p h s = Return (p', h', s'')
       \<and> name \<in> set (map fst p) \<and> name \<notin> set exclude \<and> \<not> startswith name ''_''
       \<and> getattr p name = Module m0
      \<longrightarrow> (\<exists>m1. getattr p' name = Module m1 \<and> execution_device m1 = Some (devices_device s)))
   \<and> (apply_balanced_offload ext (Some model) exclude s = Return (Some model1, s3)
       \<and> diffusers_offload_mode s = ''balanced''
       \<and> class_name model \<notin> set balanced_offload_exclude
       \<and> name \<in> set (map fst (components model)) \<and> name \<notin> set exclude
       \<and> \<not> startswith name ''_''
       \<and> getattr (components model) name = Module m0
      \<longrightarrow> (\<exists>m1. getattr (components model1) name = Module m1
                \<and> execution_device m1 = Some (devices_device s)))"
proof (intro conjI impI)
  assume "\<not> same_device (device m) (devices_device s) \<and> pre_forward ext h m s = Return (m', s')"
  then show "execution_device m' = Some (devices_device s)"
    by (auto simp add: pre_forward_def Let_def split: if_splits sum.splits option.splits)
next
  assume a: "apply_balanced_offload_to_module ext cn cached exclude p h s = Return (p', h', s'')
       \<and> name \<in> set (map fst p) \<and> name \<notin> set exclude \<and> \<not> startswith name ''_''
       \<and> getattr p name = Module m0"
  then show "\<exists>m1. getattr p' name = Module m1 \<and> execution_device m1 = Some (devices_device s)"
    using apply_to_module_execution_device [of ext cn cached exclude p h s p' h' s'' name m0]
    by blast
next
  assume a: "apply_balanced_offload ext (Some model) exclude s = Return (Some model1, s3)
       \<and> diffusers_offload_mode s = ''balanced''
       \<and> class_name model \<notin> set balanced_offload_exclude
       \<and> name \<in> set (map fst (components model)) \<and> name \<notin> set exclude
       \<and> \<not> startswith name ''_''
       \<and> getattr (components model) name = Module m0"
  then show "\<exists>m1. getattr (components model1) name = Module m1
                \<and> execution_device m1 = Some (devices_device s)"
    using apply_balanced_offload_execution_device
            [of ext model exclude s model1 s3 name m0]
    by blast
qed

lemma example_pass:
  "case apply_balanced_offload_to_module example_externals ''model'' True []
          (components example_pipeline) example_hook example_state of
     Return r \<Rightarrow> True | Raise e r \<Rightarrow> False"
  by (simp add: apply_balanced_offload_to_module_def get_pipe_modules_def
      example_pipeline_def example_hook_def example_state_def example_externals_def
      example_module_def startswith_def getattr_def offload_module_def offload_try_def
      remove_hook_from_module_def devices_cpu_def debug_def emit_def Let_def)

lemmas eval_defs =
  apply_balanced_offload_def apply_pass_def select_hook_def OffloadHook_init_def validate_def
  checkpoint_of_def balanced_offload_exclude_def offload_post_types_def
  apply_balanced_offload_to_module_def get_pipe_modules_def
  startswith_def getattr_def offload_module_def offload_try_def attach_def
  remove_hook_from_module_def add_hook_to_module_def devices_cpu_def debug_def
  model_size_def size_gb_def params_gb_def py_int_def path_join_def suffix_to_prefix
  emit_def Let_def

text \<open>
  C3, at the failing input: the low watermark option is 1.5 when the orchestrator is first
  called. The constructor records 1.5 and \<^verbatim>\<open>validate\<close> then resets the option to 0.2.
  The second call, with the same pipeline and the options as the first call left them,
  finds the recorded 1.5 different from the option and constructs a second manager, whose
  size cache is computed again.
\<close>

theorem apply_twice_constructs_second_manager:
  "(case apply_balanced_offload example_externals (Some example_pipeline) [] low_invalid_state of
      Return (p1, s1) \<Rightarrow>
        (case apply_balanced_offload example_externals p1 [] s1 of
           Return (p2, s2) \<Rightarrow>
             diffusers_offload_min_gpu_memory s1 = 1 / 5
             \<and> diffusers_offload_min_gpu_memory s2 = 1 / 5
             \<and> diffusers_offload_max_gpu_memory s1 = 7 / 10
             \<and> diffusers_offload_max_gpu_memory s2 = 7 / 10
             \<and> map_option checkpoint_name (offload_hook_instance s1) = Some ''model''
             \<and> map_option min_watermark (offload_hook_instance s1) = Some (3 / 2)
             \<and> map_option min_watermark (offload_hook_instance s2) = Some (1 / 5)
             \<and> count_list (events s1) Info_init = 1
             \<and> count_list (events s2) Info_init = 2
             \<and> count_list (events s2) (Debug_model ''text_encoder'') = 2
         | Raise e r \<Rightarrow> False)
    | Raise e r \<Rightarrow> False)"
  by (simp add: eval_defs example_pipeline_def low_invalid_state_def example_state_def
      example_externals_def example_module_def)

text \<open>
  C10, at the failing input: the low watermark option is 1.5 when the orchestrator is
  first called, so the manager records 1.5 and the option is reset to 0.2. Then the host
  watermark option alone is changed, from 0.75 to 0.5. The second call finds the recorded
  1.5 different from the option and constructs a second manager: the host budget is
  computed again and goes from 51539607552 to 34359738368 bytes.
\<close>

theorem host_watermark_change_rebuilds:
  "(case apply_balanced_offload example_externals (Some example_pipeline) [] low_invalid_state of
      Return (p1, s1) \<Rightarrow>
        (case apply_balanced_offload example_externals p1 []
                (s1\<lparr>diffusers_offload_max_cpu_memory := 1 / 2\<rparr>) of
           Return (p2, s2) \<Rightarrow>
             diffusers_offload_min_gpu_memory s1 = 1 / 5
             \<and> diffusers_offload_max_gpu_memory s1 = 7 / 10
             \<and> diffusers_offload_max_cpu_memory s1 = 3 / 4
             \<and> diffusers_offload_min_gpu_memory s2 = 1 / 5
             \<and> diffusers_offload_max_gpu_memory s2 = 7 / 10
             \<and> map_option checkpoint_name (offload_hook_instance s1) = Some ''model''
             \<and> map_option checkpoint_name (offload_hook_instance s2) = Some ''model''
             \<and> map_option cpu (offload_hook_instance s1) = Some 51539607552
             \<and> map_option cpu (offload_hook_instance s2) = Some 34359738368
             \<and> count_list (events s1) Info_init = 1
             \<and> count_list (events s2) Info_init = 2
         | Raise e r \<Rightarrow> False)
    | Raise e r \<Rightarrow> False)"
  by (simp add: eval_defs example_pipeline_def low_invalid_state_def example_state_def
      example_externals_def example_module_def)

text \<open>
  C7, at the failing input: the first module of the pipeline cannot be measured. The error
  is logged and the size cache records 0 for it, but \<^verbatim>\<open>param_num\<close> is unbound when it is
  stored: \<^verbatim>\<open>UnboundLocalError\<close> leaves the orchestrator, and the module after it is not
  processed.
\<close>

theorem size_failure_aborts_pass:
  "(case apply_balanced_offload example_externals (Some broken_pipeline) [] example_state of
      Raise e (p, s) \<Rightarrow>
        e = UnboundLocalError ''param_num''
        \<and> events s = [Info_init, Torch_gc False None, Error_calc ''text_encoder'' ''unexpected type'']
        \<and> map_option offload_map (offload_hook_instance s) = Some [(''text_encoder'', 0)]
        \<and> map_option (\<lambda>m. getattr (components m) ''unet'') p = Some (Module example_module)
        \<and> hf_hook example_module = [''model''] \<and> execution_device example_module = None
    | Return r \<Rightarrow> False)"
  by (simp add: eval_defs broken_pipeline_def example_pipeline_def example_state_def
      example_externals_def example_module_def)

lemma example_apply:
  "case apply_balanced_offload example_externals (Some example_pipeline) [] example_state of
     Return (Some model1, s3) \<Rightarrow> True | Return (None, s3) \<Rightarrow> False | Raise e r \<Rightarrow> False"
  by (simp add: eval_defs example_pipeline_def example_state_def example_externals_def
      example_module_def)

theorem execution_device_is_accelerator_witness:
  "\<not> same_device (device example_module) (devices_device example_state)
   \<and> (\<exists>m' s'. pre_forward example_externals example_hook example_module example_state
                 = Return (m', s')
               \<and> execution_device m' = Some (devices_device example_state))
   \<and> ''text_encoder'' \<in> set (map fst (components example_pipeline))
   \<and> \<not> startswith ''text_encoder'' ''_''
   \<and> getattr (components example_pipeline) ''text_encoder'' = Module example_module
   \<and> (\<exists>p' h' s'. apply_balanced_offload_to_module example_externals ''model'' True []
                     (components example_pipeline) example_hook example_state
                   = Return (p', h', s')
                 \<and> (\<exists>m1. getattr p' ''text_encoder'' = Module m1
                        \<and> execution_device m1 = Some (devices_device example_state)))
   \<and> diffusers_offload_mode example_state = ''balanced''
   \<and> class_name example_pipeline \<notin> set balanced_offload_exclude
   \<and> (\<exists>model1 s3. apply_balanced_offload example_externals (Some example_pipeline) []
                      example_state = Return (Some model1, s3)
                 \<and> (\<exists>m1. getattr (components model1) ''text_encoder'' = Module m1
                        \<and> execution_device m1 = Some (devices_device example_state)))"
proof -
  obtain p' h' s' where run:
    "apply_balanced_offload_to_module example_externals ''model'' True []
       (components example_pipeline) example_hook example_state = Return (p', h', s')"
    using example_pass by (auto split: result.splits)
  obtain model1 s3 where top:
    "apply_balanced_offload example_externals (Some example_pipeline) [] example_state
       = Return (Some model1, s3)"
    using example_apply by (auto split: result.splits option.splits)
  have f1: "\<not> same_device (device example_module) (devices_device example_state)"
    by (simp add: same_device_def example_module_def example_state_def)
  obtain m' s1 where pre:
    "pre_forward example_externals example_hook example_module example_state = Return (m', s1)"
    by (simp add: pre_forward_def example_externals_def example_module_def example_state_def
        same_device_def Let_def)
  have f2: "''text_encoder'' \<in> set (map fst (components example_pipeline))"
    "\<not> startswith ''text_encoder'' ''_''"
    "getattr (components example_pipeline) ''text_encoder'' = Module example_module"
    by (simp_all add: example_pipeline_def startswith_def getattr_def)
  have f3: "diffusers_offload_mode example_state = ''balanced''"
    "class_name example_pipeline \<notin> set balanced_offload_exclude"
    by (simp_all add: example_state_def example_pipeline_def balanced_offload_exclude_def)
  from execution_device_is_accelerator
     [where m = example_module and s = example_state and ext = example_externals
        and h = example_hook and m' = m' and s' = s1 and cn = "''model''" and cached = True
        and exclude = "[]" and p = "components example_pipeline" and p' = p' and h' = h'
        and s'' = s' and name = "''text_encoder''" and ?m0.0 = example_module
        and model = example_pipeline and ?model1.0 = model1 and ?s3.0 = s3]
    f1 pre f2 f3 run top
  show ?thesis by simp
qed

end
